theory Spec2Isabelle
  imports Complex_Main "HOL-Library.Multiset"
begin

section \<open>Text, characters and the regular expressions of the signal parser\<close>

text \<open>
  A Python \<open>str\<close> is a sequence of Unicode code points. A code point is a natural
  number and a string (\<open>str\<close>) is a list of them; \<open>text_of\<close> embeds an ASCII literal.
\<close>

type_synonym cp = nat
type_synonym str = "cp list"

definition text_of :: "string \<Rightarrow> str" where
  "text_of s = map of_char s"

text \<open>
  The parser of \<open>signal_parser.py\<close> relies on four tables of Python's Unicode database,
  which are not part of the repository. They are parameters of the model:
  \<^item> \<open>decimal c\<close> is the value of \<open>c\<close> when \<open>c\<close> is a decimal digit (what \<open>\d\<close> matches and
    what \<open>float\<close> reads), and \<open>None\<close> otherwise;
  \<^item> \<open>whitespace c\<close> says that \<open>\s\<close> matches \<open>c\<close>;
  \<^item> \<open>ignore_case p c\<close> says that under \<open>re.IGNORECASE\<close> the letter \<open>p\<close> of a pattern
    matches the character \<open>c\<close> of the text;
  \<^item> \<open>upper c\<close> is \<open>str.upper\<close> on the single character \<open>c\<close>.
\<close>

record unicode =
  decimal :: "cp \<Rightarrow> nat option"
  whitespace :: "cp \<Rightarrow> bool"
  ignore_case :: "cp \<Rightarrow> cp \<Rightarrow> bool"
  upper :: "cp \<Rightarrow> str"

text \<open>
  The tables restricted to ASCII, for running the model on ASCII texts. Python counts the
  control characters 28 to 31 as white space next to tab, line feed, vertical tab, form
  feed, carriage return and blank.
\<close>

definition ascii_lower :: "cp \<Rightarrow> cp" where
  "ascii_lower c = (if 65 \<le> c \<and> c \<le> 90 then c + 32 else c)"

definition ascii_upper :: "cp \<Rightarrow> cp" where
  "ascii_upper c = (if 97 \<le> c \<and> c \<le> 122 then c - 32 else c)"

definition ascii :: unicode where
  "ascii = \<lparr> decimal = (\<lambda>c. if 48 \<le> c \<and> c \<le> 57 then Some (c - 48) else None),
             whitespace = (\<lambda>c. (9 \<le> c \<and> c \<le> 13) \<or> (28 \<le> c \<and> c \<le> 32)),
             ignore_case = (\<lambda>p c. ascii_lower p = ascii_lower c),
             upper = (\<lambda>c. [ascii_upper c]) \<rparr>"

subsection \<open>Character classes\<close>

definition is_digit :: "unicode \<Rightarrow> cp \<Rightarrow> bool" where
  \<comment> \<open>\<open>\d\<close>\<close>
  "is_digit db c = (decimal db c \<noteq> None)"

definition is_alnum :: "unicode \<Rightarrow> cp \<Rightarrow> bool" where
  \<comment> \<open>\<open>[A-Z0-9]\<close> under \<open>re.IGNORECASE\<close>: the digits have no case\<close>
  "is_alnum db c = (list_ex (\<lambda>p. ignore_case db p c) [65 ..< 91] \<or> (48 \<le> c \<and> c \<le> 57))"

definition is_colon_space :: "unicode \<Rightarrow> cp \<Rightarrow> bool" where
  \<comment> \<open>\<open>[:\s]\<close>\<close>
  "is_colon_space db c = (c = 58 \<or> whitespace db c)"

definition is_number_char :: "unicode \<Rightarrow> cp \<Rightarrow> bool" where
  \<comment> \<open>\<open>[\d.]\<close>\<close>
  "is_number_char db c = (is_digit db c \<or> c = 46)"

definition is_range_sep :: "unicode \<Rightarrow> cp \<Rightarrow> bool" where
  \<comment> \<open>\<open>[\s\<hyphen>-]\<close> with the en dash U+2013 and the hyphen\<close>
  "is_range_sep db c = (whitespace db c \<or> c = 8211 \<or> c = 45)"

definition is_colon_newline :: "cp \<Rightarrow> bool" where
  \<comment> \<open>\<open>[:\n]\<close>\<close>
  "is_colon_newline c = (c = 58 \<or> c = 10)"

definition is_target_char :: "unicode \<Rightarrow> cp \<Rightarrow> bool" where
  \<comment> \<open>\<open>[\d%\s,]\<close>\<close>
  "is_target_char db c = (is_digit db c \<or> c = 37 \<or> whitespace db c \<or> c = 44)"

subsection \<open>A backtracking matcher for the fragment of \<open>re\<close> the parser uses\<close>

text \<open>
  Every pattern of the source is a sequence of items of five kinds: one character of a
  class, \<open>[..]+\<close>, \<open>[..]*\<close>, \<open>c?\<close>, and a capturing group \<open>([..]+)\<close>. All quantifiers are
  greedy.
\<close>

datatype re =
    Chr "cp \<Rightarrow> bool"
  | Plus "cp \<Rightarrow> bool"
  | Star "cp \<Rightarrow> bool"
  | Opt "cp \<Rightarrow> bool"
  | Group_plus "cp \<Rightarrow> bool"

text \<open>
  \<open>alts r s\<close> lists the ways item \<open>r\<close> matches at the start of \<open>s\<close>, in the order in
  which the backtracking engine tries them (longest first); each way is the list of
  groups it captured and the text that remains.
\<close>

fun alts :: "re \<Rightarrow> str \<Rightarrow> (str list \<times> str) list" where
  "alts (Chr p) s = (case s of [] \<Rightarrow> [] | c # cs \<Rightarrow> if p c then [([], cs)] else [])"
| "alts (Plus p) s = map (\<lambda>k. ([], drop k s)) (rev [1 ..< Suc (length (takeWhile p s))])"
| "alts (Star p) s = map (\<lambda>k. ([], drop k s)) (rev [0 ..< Suc (length (takeWhile p s))])"
| "alts (Opt p) s =
     (case s of [] \<Rightarrow> [([], [])] | c # cs \<Rightarrow> if p c then [([], cs), ([], s)] else [([], s)])"
| "alts (Group_plus p) s =
     map (\<lambda>k. ([take k s], drop k s)) (rev [1 ..< Suc (length (takeWhile p s))])"

fun seq_alts :: "re list \<Rightarrow> str \<Rightarrow> (str list \<times> str) list" where
  "seq_alts [] s = [([], s)]"
| "seq_alts (r # rs) s =
     concat (map (\<lambda>(g, t). map (\<lambda>(g', t'). (g @ g', t')) (seq_alts rs t)) (alts r s))"

definition match_at :: "re list \<Rightarrow> str \<Rightarrow> (str list \<times> str) option" where
  \<comment> \<open>the match the engine finds at the start of the text: the first in its order\<close>
  "match_at rs s = (case seq_alts rs s of [] \<Rightarrow> None | m # _ \<Rightarrow> Some m)"

fun search :: "re list \<Rightarrow> str \<Rightarrow> str list option" where
  \<comment> \<open>\<open>re.search\<close>: the groups of the leftmost match\<close>
  "search rs [] = map_option fst (match_at rs [])"
| "search rs (c # cs) =
     (case match_at rs (c # cs) of Some (g, _) \<Rightarrow> Some g | None \<Rightarrow> search rs cs)"

function findall :: "re list \<Rightarrow> str \<Rightarrow> str list list" where
  \<comment> \<open>\<open>re.findall\<close>: the groups of the successive matches, which do not overlap\<close>
  "findall rs [] = (case match_at rs [] of None \<Rightarrow> [] | Some (g, _) \<Rightarrow> [g])"
| "findall rs (c # cs) =
     (case match_at rs (c # cs) of
        None \<Rightarrow> findall rs cs
      | Some (g, t) \<Rightarrow> g # (if length t < length (c # cs) then findall rs t else findall rs cs))"
  by pat_completeness auto
termination
  by (relation "measure (\<lambda>(rs, s). length s)") auto

definition lit :: "unicode \<Rightarrow> string \<Rightarrow> re list" where
  \<comment> \<open>a word of the pattern, compared letter by letter ignoring case\<close>
  "lit db w = map (\<lambda>p. Chr (ignore_case db p)) (text_of w)"

definition symbol_re :: "unicode \<Rightarrow> re list" where
  \<comment> \<open>\<open>\$([A-Z0-9]+)\<close>\<close>
  "symbol_re db = [Chr (\<lambda>c. c = 36), Group_plus (is_alnum db)]"

definition first_buy_re :: "unicode \<Rightarrow> re list" where
  \<comment> \<open>\<open>first\s+buying[:\s]+([\d.]+)[\s\<hyphen>-]+([\d.]+)\<close>\<close>
  "first_buy_re db =
     lit db ''first'' @ [Plus (whitespace db)] @ lit db ''buying'' @
     [Plus (is_colon_space db), Group_plus (is_number_char db),
      Plus (is_range_sep db), Group_plus (is_number_char db)]"

definition second_buy_re :: "unicode \<Rightarrow> re list" where
  \<comment> \<open>\<open>second\s+buying[:\s]+([\d.]+)\<close>\<close>
  "second_buy_re db =
     lit db ''second'' @ [Plus (whitespace db)] @ lit db ''buying'' @
     [Plus (is_colon_space db), Group_plus (is_number_char db)]"

definition cmp_re :: "unicode \<Rightarrow> re list" where
  \<comment> \<open>\<open>cmp[:\s]+([\d.]+)\<close>\<close>
  "cmp_re db = lit db ''cmp'' @ [Plus (is_colon_space db), Group_plus (is_number_char db)]"

definition percent_re :: "unicode \<Rightarrow> re list" where
  \<comment> \<open>\<open>(\d+)%\<close>, compiled without \<open>re.IGNORECASE\<close>\<close>
  "percent_re db = [Group_plus (is_digit db), Chr (\<lambda>c. c = 37)]"

definition target_section_re :: "unicode \<Rightarrow> re list" where
  \<comment> \<open>\<open>targets?\s*[:\n]+([\d%\s,]+)\<close>\<close>
  "target_section_re db =
     lit db ''target'' @
     [Opt (ignore_case db 115), Star (whitespace db), Plus is_colon_newline,
      Group_plus (is_target_char db)]"

definition sl_re :: "unicode \<Rightarrow> re list" where
  \<comment> \<open>\<open>sl[:\s]+([\d.]+)\<close>\<close>
  "sl_re db = lit db ''sl'' @ [Plus (is_colon_space db), Group_plus (is_number_char db)]"

subsection \<open>Reading a number\<close>

text \<open>
  \<open>float\<close> is only ever applied to a capture of \<open>[\d.]+\<close> or \<open>\d+\<close>, a text of digits and
  dots. On such a text it raises \<open>ValueError\<close> (here \<open>None\<close>) unless there is at least one
  digit and at most one dot. Python rounds the decimal to the nearest double; the model
  keeps the decimal itself, as a real number.
\<close>

definition digits_value :: "nat list \<Rightarrow> nat" where
  "digits_value ds = foldl (\<lambda>a d. 10 * a + d) 0 ds"

definition py_float :: "unicode \<Rightarrow> str \<Rightarrow> real option" where
  "py_float db s =
     (let ip = takeWhile (\<lambda>c. c \<noteq> 46) s;
          fp = (case dropWhile (\<lambda>c. c \<noteq> 46) s of [] \<Rightarrow> [] | _ # t \<Rightarrow> t)
      in if ip @ fp = [] \<or> 46 \<in> set fp then None
         else case (those (map (decimal db) ip), those (map (decimal db) fp)) of
                (Some a, Some b) \<Rightarrow>
                  Some (real (digits_value a) + real (digits_value b) / 10 ^ length b)
              | _ \<Rightarrow> None)"

section \<open>The signal parser\<close>

record trading_signal =
  symbol :: str
  first_buy_range :: "real \<times> real"
  second_buy :: real
  cmp :: real
  targets :: "real list"
  stop_loss :: real

text \<open>
  \<open>SignalParser.parse_message\<close>. Every \<open>return None\<close> and every exception, which the
  \<open>except\<close> clause turns into \<open>None\<close>, is a \<open>None\<close> branch. \<open>re.findall\<close> with one group
  returns the list of that group's texts: the concatenation of the one-element group
  lists.
\<close>

definition parse_targets :: "unicode \<Rightarrow> str \<Rightarrow> real list option" where
  \<comment> \<open>lines 94 to 112: the percentages, or the alternative format when there are none\<close>
  "parse_targets db message_content =
     (case those (map (py_float db) (concat (findall (percent_re db) message_content))) of
        None \<Rightarrow> None
      | Some targets' \<Rightarrow>
          if targets' = [] then
            (case search (target_section_re db) message_content of
               Some [target_section] \<Rightarrow>
                 those (map (py_float db) (concat (findall (percent_re db) target_section)))
             | _ \<Rightarrow> Some targets')
          else Some targets')"

definition parse_message :: "unicode \<Rightarrow> str \<Rightarrow> trading_signal option" where
  "parse_message db message_content =
     (case search (symbol_re db) message_content of
        Some [g0] \<Rightarrow>
          (case search (first_buy_re db) message_content of
             Some [g1, g2] \<Rightarrow>
               (case (py_float db g1, py_float db g2) of
                  (Some first_buy_min, Some first_buy_max) \<Rightarrow>
                    (case search (second_buy_re db) message_content of
                       Some [g3] \<Rightarrow>
                         (case py_float db g3 of
                            Some second_buy' \<Rightarrow>
                              (case search (cmp_re db) message_content of
                                 Some [g4] \<Rightarrow>
                                   (case py_float db g4 of
                                      Some cmp' \<Rightarrow>
                                        (case parse_targets db message_content of
                                           Some targets' \<Rightarrow>
                                             (case search (sl_re db) message_content of
                                                Some [g5] \<Rightarrow>
                                                  (case py_float db g5 of
                                                     Some stop_loss' \<Rightarrow>
                                                       Some \<lparr> symbol = concat (map (upper db) g0),
                                                              first_buy_range = (first_buy_min, first_buy_max),
                                                              second_buy = second_buy',
                                                              cmp = cmp',
                                                              targets = sort targets',
                                                              stop_loss = stop_loss' \<rparr>
                                                   | None \<Rightarrow> None)
                                              | _ \<Rightarrow> None)
                                         | None \<Rightarrow> None)
                                    | None \<Rightarrow> None)
                               | _ \<Rightarrow> None)
                          | None \<Rightarrow> None)
                     | _ \<Rightarrow> None)
                | _ \<Rightarrow> None)
           | _ \<Rightarrow> None)
      | _ \<Rightarrow> None)"

text \<open>\<open>SignalParser.is_signal_message\<close>: the same engine, on patterns without groups.\<close>

definition is_signal_message :: "unicode \<Rightarrow> str \<Rightarrow> bool" where
  "is_signal_message db message_content =
     (let has_symbol = (search [Chr (\<lambda>c. c = 36), Plus (is_alnum db)] message_content \<noteq> None);
          has_buying = (search (lit db ''buying'') message_content \<noteq> None);
          has_cmp = (search (lit db ''cmp'') message_content \<noteq> None);
          has_targets = (search [Plus (is_digit db), Chr (\<lambda>c. c = 37)] message_content \<noteq> None);
          has_sl = (search (lit db ''sl'' @ [Plus (is_colon_space db), Plus (is_number_char db)])
                      message_content \<noteq> None)
      in has_symbol \<and> has_buying \<and> (has_cmp \<or> has_targets \<or> has_sl))"

section \<open>The exchange connector\<close>

text \<open>
  Python floats are modelled as real numbers: rounding, infinities and NaN are outside
  the model, while division by zero, which raises \<open>ZeroDivisionError\<close>, is in it.

  The \<open>ccxt\<close> client is an external library. It is a parameter of the model: four
  functions that answer a request, given the log of the requests made before it, so that
  the exchange may answer the same request differently at different times. \<open>None\<close>
  stands for a raised exception, or for an answer lacking the entry the connector
  reads, on which the connector's code raises inside its own \<open>try\<close> block.
\<close>

datatype side = Buy | Sell

datatype call =
    Fetch_balance
  | Load_markets
  | Create_limit_order str side real real
  | Create_order str str side real "real option" real

datatype order = Order nat

record ccxt =
  fetch_balance :: "call list \<Rightarrow> (str \<rightharpoonup> real) option"
  load_markets :: "call list \<Rightarrow> (str \<rightharpoonup> real) option"
  create_limit_order :: "call list \<Rightarrow> str \<Rightarrow> side \<Rightarrow> real \<Rightarrow> real \<Rightarrow> order option"
  create_order ::
    "call list \<Rightarrow> str \<Rightarrow> str \<Rightarrow> side \<Rightarrow> real \<Rightarrow> real option \<Rightarrow> real \<Rightarrow> order option"

record exchange_connector =
  exchange_name :: str
  exchange :: ccxt

text \<open>
  Every method of \<open>ExchangeConnector\<close> takes the log of the requests made so far and
  returns its result with the log extended by the requests it made.
\<close>

definition get_balance :: "exchange_connector \<Rightarrow> str \<Rightarrow> call list \<Rightarrow> real \<times> call list" where
  "get_balance ex asset lg =
     (case fetch_balance (exchange ex) lg of
        None \<Rightarrow> (0, lg @ [Fetch_balance])
      | Some balance \<Rightarrow>
          (case balance asset of
             Some free \<Rightarrow> (free, lg @ [Fetch_balance])
           | None \<Rightarrow> (0, lg @ [Fetch_balance])))"

definition get_min_order_size :: "exchange_connector \<Rightarrow> str \<Rightarrow> call list \<Rightarrow> real \<times> call list" where
  "get_min_order_size ex pair lg =
     (case load_markets (exchange ex) lg of
        None \<Rightarrow> (0.001, lg @ [Load_markets])
      | Some markets \<Rightarrow>
          (case markets pair of
             Some m \<Rightarrow> (m, lg @ [Load_markets])
           | None \<Rightarrow> (0.001, lg @ [Load_markets])))"

definition place_limit_order ::
  "exchange_connector \<Rightarrow> str \<Rightarrow> side \<Rightarrow> real \<Rightarrow> real \<Rightarrow> call list \<Rightarrow> order option \<times> call list" where
  "place_limit_order ex pair sd amount price lg =
     (create_limit_order (exchange ex) lg pair sd amount price,
      lg @ [Create_limit_order pair sd amount price])"

definition stop_order_call :: "exchange_connector \<Rightarrow> str \<Rightarrow> real \<Rightarrow> real \<Rightarrow> call" where
  \<comment> \<open>the \<open>create_order\<close> request of lines 184 to 206\<close>
  "stop_order_call ex pair amount stop_price =
     (if exchange_name ex = text_of ''binance''
      then Create_order pair (text_of ''STOP_MARKET'') Sell amount None stop_price
      else Create_order pair (text_of ''stop'') Sell amount (Some stop_price) stop_price)"

definition stop_order_reply ::
  "exchange_connector \<Rightarrow> str \<Rightarrow> real \<Rightarrow> real \<Rightarrow> call list \<Rightarrow> order option" where
  \<comment> \<open>the answer of the exchange to that request\<close>
  "stop_order_reply ex pair amount stop_price lg =
     (if exchange_name ex = text_of ''binance''
      then create_order (exchange ex) lg pair (text_of ''STOP_MARKET'') Sell amount None stop_price
      else create_order (exchange ex) lg pair (text_of ''stop'') Sell amount (Some stop_price)
             stop_price)"

definition place_stop_loss_order ::
  "exchange_connector \<Rightarrow> str \<Rightarrow> real \<Rightarrow> real \<Rightarrow> call list \<Rightarrow> order option \<times> call list" where
  "place_stop_loss_order ex pair amount stop_price lg =
     (case stop_order_reply ex pair amount stop_price lg of
        Some ord \<Rightarrow> (Some ord, lg @ [stop_order_call ex pair amount stop_price])
      | None \<Rightarrow>
          place_limit_order ex pair Sell amount stop_price
            (lg @ [stop_order_call ex pair amount stop_price]))"

definition place_take_profit_order ::
  "exchange_connector \<Rightarrow> str \<Rightarrow> real \<Rightarrow> real \<Rightarrow> call list \<Rightarrow> order option \<times> call list" where
  "place_take_profit_order ex pair amount target_price lg =
     place_limit_order ex pair Sell amount target_price lg"

definition get_symbol :: "str \<Rightarrow> str \<Rightarrow> str" where
  "get_symbol base_asset quote_asset = base_asset @ text_of ''/'' @ quote_asset"

section \<open>The trade executor\<close>

record config =
  default_quote_asset :: str
  max_position_size :: real
  position_size_percentage :: real
  enable_stop_loss :: bool
  enable_take_profit :: bool

text \<open>
  The dictionary stored per trade. Its keys \<open>symbol\<close> and \<open>signal\<close> are the fields
  \<open>pair_symbol\<close> and \<open>origin\<close> here, as the signal's record owns the name \<open>symbol\<close>.
\<close>

record trade =
  pair_symbol :: str
  base_symbol :: str
  first_order :: order
  second_order :: "order option"
  stop_loss_order :: "order option"
  take_profit_orders :: "order list"
  total_amount :: real
  avg_entry_price :: real
  origin :: trading_signal

record trade_executor =
  active_trades :: "str \<rightharpoonup> trade"
  calls :: "call list"

fun place_take_profits ::
  "exchange_connector \<Rightarrow> str \<Rightarrow> real \<Rightarrow> real \<Rightarrow> real list \<Rightarrow> call list \<Rightarrow> order list \<times> call list" where
  \<comment> \<open>the loop of lines 135 to 146\<close>
  "place_take_profits ex pair amount_per_target avg [] lg = ([], lg)"
| "place_take_profits ex pair amount_per_target avg (target_percent # rest) lg =
     (let target_price = avg * (1 + target_percent / 100);
          (tp_order, lg') = place_take_profit_order ex pair amount_per_target target_price lg;
          (orders, lg'') = place_take_profits ex pair amount_per_target avg rest lg'
      in ((case tp_order of Some ord \<Rightarrow> [ord] | None \<Rightarrow> []) @ orders, lg''))"

text \<open>
  \<open>TradeExecutor.execute_signal\<close>. The two divisions by a price of the signal raise
  \<open>ZeroDivisionError\<close> on a zero price; the \<open>except\<close> clause of lines 167 to 169 then
  returns \<open>False\<close>, with the ledger as it was and the requests made so far in the log.
\<close>

definition execute_signal ::
  "config \<Rightarrow> exchange_connector \<Rightarrow> trading_signal \<Rightarrow> trade_executor \<Rightarrow> bool \<times> trade_executor" where
  "execute_signal cfg ex sg st =
     (let pair = get_symbol (symbol sg) (default_quote_asset cfg) in
      if symbol sg \<in> dom (active_trades st) then (False, st)
      else
        let (balance, lg1) = get_balance ex (default_quote_asset cfg) (calls st) in
        if balance < 10 then (False, st\<lparr>calls := lg1\<rparr>)
        else
          let position_size =
                min (balance * (position_size_percentage cfg / 100)) (max_position_size cfg);
              first_buy_size0 = position_size * 0.6;
              second_buy_size = position_size * 0.4;
              first_buy_price = (fst (first_buy_range sg) + snd (first_buy_range sg)) / 2
          in
          if first_buy_price = 0 then (False, st\<lparr>calls := lg1\<rparr>)
          else
            let first_buy_amount0 = first_buy_size0 / first_buy_price;
                (min_order_size, lg2) = get_min_order_size ex pair lg1;
                first_buy_amount =
                  (if first_buy_amount0 < min_order_size then min_order_size
                   else first_buy_amount0);
                first_buy_size =
                  (if first_buy_amount0 < min_order_size then first_buy_amount * first_buy_price
                   else first_buy_size0);
                (first_order', lg3) =
                  place_limit_order ex pair Buy first_buy_amount first_buy_price lg2
            in
            case first_order' of
              None \<Rightarrow> (False, st\<lparr>calls := lg3\<rparr>)
            | Some first_ord \<Rightarrow>
                if second_buy sg = 0 then (False, st\<lparr>calls := lg3\<rparr>)
                else
                  let second_buy_amount = second_buy_size / second_buy sg;
                      (second_order', lg4) =
                        (if second_buy_amount \<ge> min_order_size
                         then place_limit_order ex pair Buy second_buy_amount (second_buy sg) lg3
                         else (None, lg3));
                      total_amount' =
                        (case second_order' of
                           Some _ \<Rightarrow> first_buy_amount + second_buy_amount
                         | None \<Rightarrow> first_buy_amount);
                      total_cost =
                        (case second_order' of
                           Some _ \<Rightarrow> first_buy_size + second_buy_size
                         | None \<Rightarrow> first_buy_size);
                      avg_entry_price' =
                        (if total_amount' > 0 then total_cost / total_amount' else first_buy_price);
                      (stop_loss_order', lg5) =
                        (if enable_stop_loss cfg
                         then place_stop_loss_order ex pair total_amount' (stop_loss sg) lg4
                         else (None, lg4));
                      (take_profit_orders', lg6) =
                        (if enable_take_profit cfg \<and> targets sg \<noteq> []
                         then place_take_profits ex pair
                                (total_amount' / real (length (targets sg))) avg_entry_price'
                                (targets sg) lg5
                         else ([], lg5))
                  in (True,
                      \<lparr> active_trades = (active_trades st)(symbol sg \<mapsto>
                           \<lparr> pair_symbol = pair,
                             base_symbol = symbol sg,
                             first_order = first_ord,
                             second_order = second_order',
                             stop_loss_order = stop_loss_order',
                             take_profit_orders = take_profit_orders',
                             total_amount = total_amount',
                             avg_entry_price = avg_entry_price',
                             origin = sg \<rparr>),
                         calls = lg6 \<rparr>))"

definition is_buy_order :: "call \<Rightarrow> bool" where
  \<comment> \<open>the requests that place a buy order\<close>
  "is_buy_order c =
     (case c of
        Create_limit_order _ sd _ _ \<Rightarrow> sd = Buy
      | Create_order _ _ sd _ _ _ \<Rightarrow> sd = Buy
      | _ \<Rightarrow> False)"

subsection \<open>The executor in floating-point arithmetic\<close>

text \<open>
  The prices and amounts of \<open>execute_signal\<close> are Python floats, IEEE 754 doubles, and
  every arithmetic operation on them rounds its exact result. Where a property depends
  on that, the executor is read with the rounding written out: \<open>execute_signal_fp rnd\<close>
  is \<open>execute_signal\<close> with \<open>rnd\<close> applied to the exact result of each addition,
  multiplication and division and to the literals \<open>0.6\<close> and \<open>0.4\<close>; comparisons and
  \<open>min\<close> are exact. With the identity for \<open>rnd\<close> it is \<open>execute_signal\<close>.
  \<open>round_double\<close> rounds to the nearest number with a significand of 53 bits, ties to
  the even significand, which is the result of the operation on doubles whenever that
  result is zero or in the normal range of doubles (neither overflow nor underflow).
\<close>

definition round_half_even :: "real \<Rightarrow> int" where
  \<comment> \<open>the nearest integer, the even one of two that are equally near\<close>
  "round_half_even x =
     (let f = \<lfloor>x\<rfloor>; d = x - of_int f
      in if d < 1 / 2 then f else if 1 / 2 < d then f + 1 else if even f then f else f + 1)"

fun binade :: "nat \<Rightarrow> real \<Rightarrow> real \<Rightarrow> real" where
  \<comment> \<open>\<open>binade n x 1\<close> is the power of two \<open>u\<close> with \<open>u \<le> x < 2 * u\<close>, when \<open>n\<close> steps reach it\<close>
  "binade 0 x u = u"
| "binade (Suc n) x u =
     (if 2 \<le> x then binade n (x / 2) (u * 2)
      else if x < 1 then binade n (x * 2) (u / 2)
      else u)"

definition round_double :: "real \<Rightarrow> real" where
  "round_double x =
     (if x = 0 then 0
      else let ulp = binade 2200 \<bar>x\<bar> 1 / 2 ^ 52
           in sgn x * of_int (round_half_even (\<bar>x\<bar> / ulp)) * ulp)"

fun place_take_profits_fp ::
  "(real \<Rightarrow> real) \<Rightarrow> exchange_connector \<Rightarrow> str \<Rightarrow> real \<Rightarrow> real \<Rightarrow> real list \<Rightarrow> call list \<Rightarrow>
     order list \<times> call list" where
  "place_take_profits_fp rnd ex pair amount_per_target avg [] lg = ([], lg)"
| "place_take_profits_fp rnd ex pair amount_per_target avg (target_percent # rest) lg =
     (let target_price = rnd (avg * rnd (1 + rnd (target_percent / 100)));
          (tp_order, lg') = place_take_profit_order ex pair amount_per_target target_price lg;
          (orders, lg'') = place_take_profits_fp rnd ex pair amount_per_target avg rest lg'
      in ((case tp_order of Some ord \<Rightarrow> [ord] | None \<Rightarrow> []) @ orders, lg''))"

definition execute_signal_fp ::
  "(real \<Rightarrow> real) \<Rightarrow> config \<Rightarrow> exchange_connector \<Rightarrow> trading_signal \<Rightarrow> trade_executor \<Rightarrow>
     bool \<times> trade_executor" where
  "execute_signal_fp rnd cfg ex sg st =
     (let pair = get_symbol (symbol sg) (default_quote_asset cfg) in
      if symbol sg \<in> dom (active_trades st) then (False, st)
      else
        let (balance, lg1) = get_balance ex (default_quote_asset cfg) (calls st) in
        if balance < 10 then (False, st\<lparr>calls := lg1\<rparr>)
        else
          let position_size =
                min (rnd (balance * rnd (position_size_percentage cfg / 100)))
                  (max_position_size cfg);
              first_buy_size0 = rnd (position_size * rnd 0.6);
              second_buy_size = rnd (position_size * rnd 0.4);
              first_buy_price =
                rnd (rnd (fst (first_buy_range sg) + snd (first_buy_range sg)) / 2)
          in
          if first_buy_price = 0 then (False, st\<lparr>calls := lg1\<rparr>)
          else
            let first_buy_amount0 = rnd (first_buy_size0 / first_buy_price);
                (min_order_size, lg2) = get_min_order_size ex pair lg1;
                first_buy_amount =
                  (if first_buy_amount0 < min_order_size then min_order_size
                   else first_buy_amount0);
                first_buy_size =
                  (if first_buy_amount0 < min_order_size
                   then rnd (first_buy_amount * first_buy_price)
                   else first_buy_size0);
                (first_order', lg3) =
                  place_limit_order ex pair Buy first_buy_amount first_buy_price lg2
            in
            case first_order' of
              None \<Rightarrow> (False, st\<lparr>calls := lg3\<rparr>)
            | Some first_ord \<Rightarrow>
                if second_buy sg = 0 then (False, st\<lparr>calls := lg3\<rparr>)
                else
                  let second_buy_amount = rnd (second_buy_size / second_buy sg);
                      (second_order', lg4) =
                        (if second_buy_amount \<ge> min_order_size
                         then place_limit_order ex pair Buy second_buy_amount (second_buy sg) lg3
                         else (None, lg3));
                      total_amount' =
                        (case second_order' of
                           Some _ \<Rightarrow> rnd (first_buy_amount + second_buy_amount)
                         | None \<Rightarrow> first_buy_amount);
                      total_cost =
                        (case second_order' of
                           Some _ \<Rightarrow> rnd (first_buy_size + second_buy_size)
                         | None \<Rightarrow> first_buy_size);
                      avg_entry_price' =
                        (if total_amount' > 0 then rnd (total_cost / total_amount')
                         else first_buy_price);
                      (stop_loss_order', lg5) =
                        (if enable_stop_loss cfg
                         then place_stop_loss_order ex pair total_amount' (stop_loss sg) lg4
                         else (None, lg4));
                      (take_profit_orders', lg6) =
                        (if enable_take_profit cfg \<and> targets sg \<noteq> []
                         then place_take_profits_fp rnd ex pair
                                (rnd (total_amount' / real (length (targets sg)))) avg_entry_price'
                                (targets sg) lg5
                         else ([], lg5))
                  in (True,
                      \<lparr> active_trades = (active_trades st)(symbol sg \<mapsto>
                           \<lparr> pair_symbol = pair,
                             base_symbol = symbol sg,
                             first_order = first_ord,
                             second_order = second_order',
                             stop_loss_order = stop_loss_order',
                             take_profit_orders = take_profit_orders',
                             total_amount = total_amount',
                             avg_entry_price = avg_entry_price',
                             origin = sg \<rparr>),
                         calls = lg6 \<rparr>))"

section \<open>The ledger as Python objects\<close>

text \<open>
  No claim on \<open>execute_signal\<close> depends on the identity of objects, so the executor
  above holds the ledger as a map of values. The snapshot \<open>get_active_trades\<close> returns
  does: \<open>self.active_trades\<close> is a reference to a dictionary whose values are references
  to the dictionaries of the trades. Objects live in a heap, a list indexed by
  references; allocation appends.
\<close>

type_synonym ref = nat

datatype obj =
    Dict "str \<rightharpoonup> ref"
  | Trade_dict trade

type_synonym heap = "obj list"

definition lookup :: "heap \<Rightarrow> ref \<Rightarrow> obj option" where
  "lookup h r = (if r < length h then Some (h ! r) else None)"

definition get_active_trades :: "ref \<Rightarrow> heap \<Rightarrow> (ref \<times> heap) option" where
  \<comment> \<open>\<open>return self.active_trades.copy()\<close>: a new dictionary with the same entries\<close>
  "get_active_trades active_trades_ref h =
     (case lookup h active_trades_ref of
        Some (Dict d) \<Rightarrow> Some (length h, h @ [Dict d])
      | _ \<Rightarrow> None)"

text \<open>
  What a holder of a reference to a dictionary of trades can do with it: read it through
  (\<open>contents\<close>), assign or delete a key (\<open>d[k] = v\<close>, \<open>del d[k]\<close>), and assign to a
  field of one of its trades (\<open>d[k]['total_amount'] = x\<close>). An operation that raises in
  Python leaves the heap as it is.
\<close>

definition contents :: "heap \<Rightarrow> ref \<Rightarrow> (str \<rightharpoonup> trade)" where
  "contents h r =
     (case lookup h r of
        Some (Dict d) \<Rightarrow>
          (\<lambda>k. case d k of
                 None \<Rightarrow> None
               | Some a \<Rightarrow> (case lookup h a of Some (Trade_dict t) \<Rightarrow> Some t | _ \<Rightarrow> None))
      | _ \<Rightarrow> Map.empty)"

definition dict_setitem :: "ref \<Rightarrow> str \<Rightarrow> ref \<Rightarrow> heap \<Rightarrow> heap" where
  "dict_setitem r k v h =
     (case lookup h r of Some (Dict d) \<Rightarrow> h[r := Dict (d(k \<mapsto> v))] | _ \<Rightarrow> h)"

definition dict_delitem :: "ref \<Rightarrow> str \<Rightarrow> heap \<Rightarrow> heap" where
  "dict_delitem r k h =
     (case lookup h r of Some (Dict d) \<Rightarrow> h[r := Dict (d(k := None))] | _ \<Rightarrow> h)"

definition trade_set_total_amount :: "ref \<Rightarrow> str \<Rightarrow> real \<Rightarrow> heap \<Rightarrow> heap" where
  \<comment> \<open>\<open>d[k]['total_amount'] = x\<close> on the dictionary at \<open>r\<close>\<close>
  "trade_set_total_amount r k x h =
     (case lookup h r of
        Some (Dict d) \<Rightarrow>
          (case d k of
             None \<Rightarrow> h
           | Some a \<Rightarrow>
               (case lookup h a of
                  Some (Trade_dict t) \<Rightarrow> h[a := Trade_dict (t\<lparr>total_amount := x\<rparr>)]
                | _ \<Rightarrow> h))
      | _ \<Rightarrow> h)"

section \<open>Example inputs\<close>

text \<open>The defaults of \<open>config.py\<close>.\<close>

definition default_config :: config where
  "default_config =
     \<lparr> default_quote_asset = text_of ''USDT'', max_position_size = 100,
       position_size_percentage = 10, enable_stop_loss = True, enable_take_profit = True \<rparr>"

text \<open>
  A client for an account with a free USDT balance and one market, LSK/USDT, with a
  minimum order size; it places the orders that \<open>accepts\<close> admits and raises on the
  others. The order it places is numbered by the length of the log.
\<close>

definition example_client :: "real \<Rightarrow> real \<Rightarrow> (call \<Rightarrow> bool) \<Rightarrow> ccxt" where
  "example_client free min_size accepts =
     \<lparr> fetch_balance = (\<lambda>lg. Some [text_of ''USDT'' \<mapsto> free]),
       load_markets = (\<lambda>lg. Some [text_of ''LSK/USDT'' \<mapsto> min_size]),
       create_limit_order = (\<lambda>lg pair sd amount price.
         if accepts (Create_limit_order pair sd amount price) then Some (Order (length lg)) else None),
       create_order = (\<lambda>lg pair ty sd amount price stop_price.
         if accepts (Create_order pair ty sd amount price stop_price) then Some (Order (length lg))
         else None) \<rparr>"

definition example_connector :: "real \<Rightarrow> real \<Rightarrow> (call \<Rightarrow> bool) \<Rightarrow> exchange_connector" where
  "example_connector free min_size accepts =
     \<lparr> exchange_name = text_of ''binance'', exchange = example_client free min_size accepts \<rparr>"

definition new_executor :: trade_executor where
  "new_executor = \<lparr> active_trades = Map.empty, calls = [] \<rparr>"

definition example_signal :: trading_signal where
  "example_signal =
     \<lparr> symbol = text_of ''LSK'', first_buy_range = (0.208, 0.21), second_buy = 0.205,
       cmp = 0.209, targets = [5, 10, 15], stop_loss = 0.195 \<rparr>"

definition example_trade :: trade where
  "example_trade =
     \<lparr> pair_symbol = text_of ''LSK/USDT'', base_symbol = text_of ''LSK'', first_order = Order 2,
       second_order = None, stop_loss_order = None, take_profit_orders = [],
       total_amount = 300, avg_entry_price = 0.209, origin = example_signal \<rparr>"

definition example_message :: str where
  "example_message =
     text_of (''Buying $LSK'' @ [CHR 0x0A] @ ''First buying: 0.208-0.210'' @ [CHR 0x0A] @
       ''Second buying: 0.205'' @ [CHR 0x0A] @ ''CMP: 0.209'' @ [CHR 0x0A] @
       ''Targets: 5%, 10%, 15%'' @ [CHR 0x0A] @ ''SL: 0.195'')"

definition no_targets_message :: str where
  "no_targets_message =
     text_of (''Buying $LSK'' @ [CHR 0x0A] @ ''First buying: 0.208-0.210'' @ [CHR 0x0A] @
       ''Second buying: 0.205'' @ [CHR 0x0A] @ ''CMP: 0.209'' @ [CHR 0x0A] @ ''SL: 0.195'')"

definition zero_second_message :: str where
  "zero_second_message =
     text_of (''Buying $LSK'' @ [CHR 0x0A] @ ''First buying: 0.208-0.210'' @ [CHR 0x0A] @
       ''Second buying: 0'' @ [CHR 0x0A] @ ''CMP: 0.209'' @ [CHR 0x0A] @
       ''Targets: 5%, 10%, 15%'' @ [CHR 0x0A] @ ''SL: 0.195'')"

definition zero_second_signal :: trading_signal where
  \<comment> \<open>the example signal with a second buying price of zero\<close>
  "zero_second_signal = example_signal\<lparr>second_buy := 0\<rparr>"

definition accept_all :: "call \<Rightarrow> bool" where
  \<comment> \<open>an exchange that places every order\<close>
  "accept_all c = True"

definition deep_second_signal :: trading_signal where
  \<comment> \<open>the example signal with a second buying price of 0.1\<close>
  "deep_second_signal = example_signal\<lparr>second_buy := 0.1\<rparr>"

definition no_targets_signal :: trading_signal where
  \<comment> \<open>the example signal without targets\<close>
  "no_targets_signal = example_signal\<lparr>targets := []\<rparr>"

definition holding_executor :: trade_executor where
  \<comment> \<open>an executor with an active trade for LSK\<close>
  "holding_executor = \<lparr> active_trades = [text_of ''LSK'' \<mapsto> example_trade], calls = [] \<rparr>"

definition example_heap :: heap where
  \<comment> \<open>the ledger at reference 0, holding the trade at reference 1 under the key LSK\<close>
  "example_heap = [Dict [text_of ''LSK'' \<mapsto> 1], Trade_dict example_trade]"

definition snapshot_heap :: heap where
  \<comment> \<open>the example heap after \<open>get_active_trades\<close>: the copy is at reference 2\<close>
  "snapshot_heap = example_heap @ [Dict [text_of ''LSK'' \<mapsto> 1]]"

definition thirteen_signal :: trading_signal where
  \<comment> \<open>a signal to buy at 13, with a second buying price of 16\<close>
  "thirteen_signal =
     \<lparr> symbol = text_of ''LSK'', first_buy_range = (13, 13), second_buy = 16,
       cmp = 13, targets = [5, 10, 15], stop_loss = 12 \<rparr>"

definition thirteen_run :: "bool \<times> trade_executor" where
  \<comment> \<open>that signal executed in doubles: 1000 USDT free, a minimum order size of 4\<close>
  "thirteen_run =
     execute_signal_fp round_double default_config (example_connector 1000 4 accept_all)
       thirteen_signal new_executor"

section \<open>Properties of the matcher\<close>

lemma alts_drop: "(g, t) \<in> set (alts r s) \<Longrightarrow> \<exists>k. t = drop k s"
  by (cases r) (auto split: list.splits if_splits intro: exI [of _ 0] exI [of _ 1])

lemma seq_alts_drop: "(g, t) \<in> set (seq_alts rs s) \<Longrightarrow> \<exists>k. t = drop k s"
proof (induction rs arbitrary: g t s)
  case Nil
  then show ?case by (auto intro: exI [of _ 0])
next
  case (Cons r rs)
  then obtain g1 t1 g2 where 1: "(g1, t1) \<in> set (alts r s)" and 2: "(g2, t) \<in> set (seq_alts rs t1)"
    by auto
  from alts_drop [OF 1] obtain k where "t1 = drop k s" ..
  moreover from Cons.IH [OF 2] obtain j where "t = drop j t1" ..
  ultimately have "t = drop (k + j) s" by (simp add: add.commute)
  then show ?case ..
qed

lemma seq_alts_Cons_iff:
  "(g, t) \<in> set (seq_alts (r # rs) s) \<longleftrightarrow>
     (\<exists>g1 u g2. (g1, u) \<in> set (alts r s) \<and> (g2, t) \<in> set (seq_alts rs u) \<and> g = g1 @ g2)"
proof -
  have "(g, t) \<in> set (seq_alts (r # rs) s) \<longleftrightarrow>
        (\<exists>x\<in>set (alts r s). \<exists>y\<in>set (seq_alts rs (snd x)). g = fst x @ fst y \<and> t = snd y)"
    by (simp add: split_beta image_iff)
  also have "\<dots> \<longleftrightarrow>
        (\<exists>g1 u g2. (g1, u) \<in> set (alts r s) \<and> (g2, t) \<in> set (seq_alts rs u) \<and> g = g1 @ g2)"
    by (simp add: Bex_def)
  finally show ?thesis .
qed

lemma seq_alts_append_iff:
  "(\<exists>g. (g, t) \<in> set (seq_alts (xs @ ys) s)) \<longleftrightarrow>
     (\<exists>g1 u g2. (g1, u) \<in> set (seq_alts xs s) \<and> (g2, t) \<in> set (seq_alts ys u))"
proof (induction xs arbitrary: s)
  case Nil
  then show ?case by simp
next
  case (Cons r xs)
  have "(\<exists>g. (g, t) \<in> set (seq_alts ((r # xs) @ ys) s)) \<longleftrightarrow>
        (\<exists>g1 u. (g1, u) \<in> set (alts r s) \<and> (\<exists>g. (g, t) \<in> set (seq_alts (xs @ ys) u)))"
    unfolding append_Cons seq_alts_Cons_iff by blast
  also have "\<dots> \<longleftrightarrow> (\<exists>g1 u. (g1, u) \<in> set (alts r s) \<and>
        (\<exists>g1' u' g2. (g1', u') \<in> set (seq_alts xs u) \<and> (g2, t) \<in> set (seq_alts ys u')))"
    unfolding Cons.IH ..
  also have "\<dots> \<longleftrightarrow> (\<exists>g1 u g2. (g1, u) \<in> set (seq_alts (r # xs) s) \<and> (g2, t) \<in> set (seq_alts ys u))"
    unfolding seq_alts_Cons_iff by blast
  finally show ?case .
qed

lemma nonempty_iff: "xs \<noteq> [] \<longleftrightarrow> (\<exists>g t. (g, t) \<in> set xs)"
  by (cases xs) auto

lemma search_Some_iff:
  "search rs s \<noteq> None \<longleftrightarrow> (\<exists>k. seq_alts rs (drop k s) \<noteq> [])"
proof (induction s)
  case Nil
  then show ?case by (simp add: match_at_def split: list.splits)
next
  case (Cons c cs)
  have "(\<exists>k. seq_alts rs (drop k (c # cs)) \<noteq> []) \<longleftrightarrow>
        seq_alts rs (c # cs) \<noteq> [] \<or> (\<exists>k. seq_alts rs (drop k cs) \<noteq> [])"
  proof
    assume "\<exists>k. seq_alts rs (drop k (c # cs)) \<noteq> []"
    then obtain k where k: "seq_alts rs (drop k (c # cs)) \<noteq> []" ..
    show "seq_alts rs (c # cs) \<noteq> [] \<or> (\<exists>k. seq_alts rs (drop k cs) \<noteq> [])"
    proof (cases k)
      case 0
      with k show ?thesis by simp
    next
      case (Suc j)
      with k have "seq_alts rs (drop j cs) \<noteq> []" by simp
      then show ?thesis by blast
    qed
  next
    assume "seq_alts rs (c # cs) \<noteq> [] \<or> (\<exists>k. seq_alts rs (drop k cs) \<noteq> [])"
    then show "\<exists>k. seq_alts rs (drop k (c # cs)) \<noteq> []"
    proof
      assume "seq_alts rs (c # cs) \<noteq> []"
      then have "seq_alts rs (drop 0 (c # cs)) \<noteq> []" by simp
      then show ?thesis ..
    next
      assume "\<exists>k. seq_alts rs (drop k cs) \<noteq> []"
      then obtain k where "seq_alts rs (drop k cs) \<noteq> []" ..
      then have "seq_alts rs (drop (Suc k) (c # cs)) \<noteq> []" by simp
      then show ?thesis ..
    qed
  qed
  with Cons.IH show ?case
    by (simp add: match_at_def split: list.splits option.splits prod.splits) 
qed

lemma search_infix:
  assumes "search (xs @ ys @ zs) s \<noteq> None"
  shows "search ys s \<noteq> None"
proof -
  from assms obtain k where "seq_alts (xs @ ys @ zs) (drop k s) \<noteq> []"
    unfolding search_Some_iff ..
  then obtain g t where "(g, t) \<in> set (seq_alts (xs @ ys @ zs) (drop k s))"
    unfolding nonempty_iff by blast
  then obtain g1 u where u: "(g1, u) \<in> set (seq_alts xs (drop k s))"
    and "\<exists>g. (g, t) \<in> set (seq_alts (ys @ zs) u)"
    using seq_alts_append_iff [of t xs "ys @ zs" "drop k s"] by blast
  then obtain g2 v where v: "(g2, v) \<in> set (seq_alts ys u)"
    using seq_alts_append_iff [of t ys zs u] by blast
  from seq_alts_drop [OF u] obtain j where "u = drop j (drop k s)" ..
  then have "u = drop (k + j) s" by (simp add: add.commute)
  with v have "seq_alts ys (drop (k + j) s) \<noteq> []" by auto
  then show ?thesis unfolding search_Some_iff ..
qed

lemma alts_Group_plus_empty: "alts (Group_plus p) s = [] \<longleftrightarrow> alts (Plus p) s = []"
  by simp

lemma search_ungroup_last:
  "search (xs @ [Group_plus p]) s \<noteq> None \<longleftrightarrow> search (xs @ [Plus p]) s \<noteq> None"
proof -
  have 1: "\<And>r t. (\<exists>g u. (g, u) \<in> set (seq_alts [r] t)) \<longleftrightarrow> alts r t \<noteq> []"
    by (auto simp: nonempty_iff)
  have "\<And>t. seq_alts (xs @ [Group_plus p]) t \<noteq> [] \<longleftrightarrow> seq_alts (xs @ [Plus p]) t \<noteq> []"
  proof -
    fix t
    have "seq_alts (xs @ [r]) t \<noteq> [] \<longleftrightarrow> (\<exists>g1 u. (g1, u) \<in> set (seq_alts xs t) \<and> alts r u \<noteq> [])" for r
    proof -
      have "seq_alts (xs @ [r]) t \<noteq> [] \<longleftrightarrow> (\<exists>v g. (g, v) \<in> set (seq_alts (xs @ [r]) t))"
        unfolding nonempty_iff by blast
      also have "\<dots> \<longleftrightarrow> (\<exists>v g1 u g2. (g1, u) \<in> set (seq_alts xs t) \<and> (g2, v) \<in> set (seq_alts [r] u))"
        unfolding seq_alts_append_iff ..
      also have "\<dots> \<longleftrightarrow> (\<exists>g1 u. (g1, u) \<in> set (seq_alts xs t) \<and> alts r u \<noteq> [])"
        unfolding 1 [symmetric] by blast
      finally show ?thesis .
    qed
    then show "seq_alts (xs @ [Group_plus p]) t \<noteq> [] \<longleftrightarrow> seq_alts (xs @ [Plus p]) t \<noteq> []"
      unfolding alts_Group_plus_empty by simp
  qed
  then show ?thesis unfolding search_Some_iff by simp
qed


lemma parse_message_Some:
  assumes "parse_message db m = Some sg"
  shows "search (symbol_re db) m \<noteq> None \<and> search (first_buy_re db) m \<noteq> None \<and>
         search (second_buy_re db) m \<noteq> None \<and> search (cmp_re db) m \<noteq> None \<and>
         search (sl_re db) m \<noteq> None \<and>
         (\<exists>ts. parse_targets db m = Some ts \<and> targets sg = sort ts)"
  using assms unfolding parse_message_def
  by (simp split: option.splits list.splits prod.splits) auto

lemma match_at_None_iff: "match_at rs s = None \<longleftrightarrow> seq_alts rs s = []"
  by (simp add: match_at_def split: list.splits)

lemma match_at_Some_mem: "match_at rs s = Some x \<Longrightarrow> x \<in> set (seq_alts rs s)"
  by (auto simp: match_at_def split: list.splits)

lemma search_Some_mem:
  "search rs s = Some g \<Longrightarrow> \<exists>k t. (g, t) \<in> set (seq_alts rs (drop k s))"
proof (induction s)
  case Nil
  then show ?case by (auto dest: match_at_Some_mem)
next
  case (Cons c cs)
  show ?case
  proof (cases "match_at rs (c # cs)")
    case None
    with Cons.prems have "search rs cs = Some g" by simp
    from Cons.IH [OF this] obtain k t where "(g, t) \<in> set (seq_alts rs (drop k cs))" by blast
    then have "(g, t) \<in> set (seq_alts rs (drop (Suc k) (c # cs)))" by simp
    then show ?thesis by blast
  next
    case (Some x)
    with Cons.prems have "x = (g, snd x)" by (cases x) simp
    with match_at_Some_mem [OF Some] have "(g, snd x) \<in> set (seq_alts rs (drop 0 (c # cs)))" by simp
    then show ?thesis by blast
  qed
qed

lemma findall_Nil_iff: "findall rs s = [] \<longleftrightarrow> search rs s = None"
  by (induction rs s rule: findall.induct) (auto split: option.splits)

lemma findall_groups_aux:
  "(\<forall>g t u. (g, t) \<in> set (seq_alts rs u) \<longrightarrow> P g) \<longrightarrow> (\<forall>g\<in>set (findall rs s). P g)"
proof (induction rs s rule: findall.induct)
  case (1 rs)
  show ?case
    by (auto split: option.splits dest!: match_at_Some_mem sym [of "Some _" "match_at _ _"])
next
  case (2 rs c cs)
  show ?case
  proof (intro impI)
    assume P: "\<forall>g t u. (g, t) \<in> set (seq_alts rs u) \<longrightarrow> P g"
    show "\<forall>g\<in>set (findall rs (c # cs)). P g"
    proof (cases "match_at rs (c # cs)")
      case None
      with 2(1) P show ?thesis by simp
    next
      case (Some x)
      obtain g t where x: "x = (g, t)" by (cases x)
      from match_at_Some_mem [OF Some] P x have "P g" by blast
      moreover have "\<forall>g\<in>set (if length t < length (c # cs) then findall rs t else findall rs cs). P g"
        using 2(2,3) [OF Some [unfolded x] refl] P by (cases "length t < length (c # cs)") simp_all
      ultimately show ?thesis using Some x by simp
    qed
  qed
qed

lemma findall_groups:
  assumes "\<And>g t u. (g, t) \<in> set (seq_alts rs u) \<Longrightarrow> P g"
  shows "\<forall>g\<in>set (findall rs s). P g"
  using findall_groups_aux [of rs P s] assms by blast

lemma length_concat_singletons: "\<forall>g\<in>set xs. length g = 1 \<Longrightarrow> length (concat xs) = length xs"
  by (induction xs) simp_all

lemma percent_groups: "(g, t) \<in> set (seq_alts (percent_re db) u) \<Longrightarrow> length g = 1"
  by (auto simp: percent_re_def split: list.splits if_splits)

lemma length_concat_findall_percent:
  "length (concat (findall (percent_re db) s)) = length (findall (percent_re db) s)"
proof -
  have "\<forall>g\<in>set (findall (percent_re db) s). length g = 1"
    by (rule findall_groups) (rule percent_groups)
  then show ?thesis by (rule length_concat_singletons)
qed

lemma alts_groups_sub:
  assumes "(g, t) \<in> set (alts r s)" and "x \<in> set g"
  shows "\<exists>a b. x = take a (drop b s)"
proof (cases r)
  case (Group_plus p)
  with assms obtain k where "x = take k s" by auto
  then have "x = take k (drop 0 s)" by simp
  then show ?thesis by blast
qed (use assms in \<open>auto split: list.splits if_splits\<close>)

lemma seq_alts_groups_sub:
  "(g, t) \<in> set (seq_alts rs s) \<Longrightarrow> \<forall>x\<in>set g. \<exists>a b. x = take a (drop b s)"
proof (induction rs arbitrary: g t s)
  case Nil
  then show ?case by simp
next
  case (Cons r rs)
  from Cons.prems obtain g1 u g2 where 1: "(g1, u) \<in> set (alts r s)"
    and 2: "(g2, t) \<in> set (seq_alts rs u)" and g: "g = g1 @ g2"
    unfolding seq_alts_Cons_iff by blast
  from alts_drop [OF 1] obtain k where u: "u = drop k s" ..
  have "\<exists>a b. x = take a (drop b s)" if "x \<in> set g2" for x
  proof -
    from Cons.IH [OF 2] that obtain a b where "x = take a (drop b u)" by blast
    then have "x = take a (drop (k + b) s)" by (simp add: u add.commute)
    then show ?thesis by blast
  qed
  with alts_groups_sub [OF 1] show ?case unfolding g by auto
qed

lemma search_groups_sub:
  assumes "search rs s = Some g" and "x \<in> set g"
  shows "\<exists>a b. x = take a (drop b s)"
proof -
  from search_Some_mem [OF assms(1)] obtain k t where "(g, t) \<in> set (seq_alts rs (drop k s))"
    by blast
  from seq_alts_groups_sub [OF this] assms(2) obtain a b where "x = take a (drop b (drop k s))"
    by blast
  then have "x = take a (drop (k + b) s)" by (simp add: add.commute)
  then show ?thesis by blast
qed

lemma le_length_takeWhile_iff:
  "k \<le> length (takeWhile p xs) \<longleftrightarrow> k \<le> length xs \<and> (\<forall>x\<in>set (take k xs). p x)"
proof (induction xs arbitrary: k)
  case Nil
  then show ?case by simp
next
  case (Cons y ys)
  then show ?case by (cases k) auto
qed

lemma percent_prefix:
  assumes "seq_alts (percent_re db) (take n t) \<noteq> []"
  shows "seq_alts (percent_re db) t \<noteq> []"
proof -
  let ?p = "is_digit db"
  from assms have "\<exists>k cs. 1 \<le> k \<and> k \<le> length (takeWhile ?p (take n t))
      \<and> 37 # cs = drop k (take n t)"
    unfolding percent_re_def
    by (auto split: list.splits if_splits)
  then obtain k cs where k: "1 \<le> k" "k \<le> length (takeWhile ?p (take n t))"
    and d: "drop k (take n t) = 37 # cs"
    by metis
  from k(2) have kl: "k \<le> length (take n t)" and all: "\<forall>x\<in>set (take k (take n t)). ?p x"
    unfolding le_length_takeWhile_iff by simp_all
  have "k < length (take n t)"
  proof (rule ccontr)
    assume "\<not> k < length (take n t)"
    then have "drop k (take n t) = []" by (simp del: length_take)
    with d show False by simp
  qed
  then have kn: "k < n" and kt: "k < length t" by simp_all
  then have "take k (take n t) = take k t" by (simp add: min_def)
  with all kt have "k \<le> length (takeWhile ?p t)"
    unfolding le_length_takeWhile_iff by simp
  moreover from d have "take (n - k) (drop k t) = 37 # cs" by (simp add: drop_take)
  then obtain cs' where "drop k t = 37 # cs'" by (cases "drop k t") (auto split: if_splits simp: take_Cons')
  ultimately have "([take k t], cs') \<in> set (seq_alts (percent_re db) t)"
    using k(1) unfolding percent_re_def by (auto simp: image_iff intro!: bexI [of _ k])
  then show ?thesis by auto
qed

lemma percent_search_sub:
  assumes "search (percent_re db) (take a (drop b s)) \<noteq> None"
  shows "search (percent_re db) s \<noteq> None"
proof -
  from assms obtain k where "seq_alts (percent_re db) (drop k (take a (drop b s))) \<noteq> []"
    unfolding search_Some_iff ..
  then have "seq_alts (percent_re db) (take (a - k) (drop (b + k) s)) \<noteq> []"
    by (simp add: drop_take add.commute)
  then have "seq_alts (percent_re db) (drop (b + k) s) \<noteq> []" by (rule percent_prefix)
  then show ?thesis unfolding search_Some_iff ..
qed

lemma parse_targets_length:
  assumes "parse_targets db m = Some ts"
  shows "length ts = length (findall (percent_re db) m)"
proof -
  from assms obtain ts0 where ts0: "those (map (py_float db) (concat (findall (percent_re db) m))) = Some ts0"
    unfolding parse_targets_def by (auto split: option.splits)
  have len: "length ys = length xs" if "those xs = Some ys" for xs :: "real option list" and ys
    using that by (induction xs arbitrary: ys) (auto split: option.splits)
  from len [OF ts0] have l0: "length ts0 = length (findall (percent_re db) m)"
    by (simp add: length_concat_findall_percent)
  show ?thesis
  proof (cases "ts0 = []")
    case False
    with assms ts0 have "ts = ts0" unfolding parse_targets_def by simp
    with l0 show ?thesis by simp
  next
    case True
    with l0 have none: "search (percent_re db) m = None" by (simp add: findall_Nil_iff)
    show ?thesis
    proof (cases "\<exists>sec. search (target_section_re db) m = Some [sec]")
      case False
      with assms ts0 True have "ts = ts0" unfolding parse_targets_def
        by (auto split: option.splits list.splits)
      with l0 show ?thesis by simp
    next
      case True': True
      then obtain sec where sec: "search (target_section_re db) m = Some [sec]" ..
      from search_groups_sub [OF sec] obtain a b where "sec = take a (drop b m)" by auto
      have "search (percent_re db) sec = None"
      proof (rule ccontr)
        assume "search (percent_re db) sec \<noteq> None"
        then have "search (percent_re db) m \<noteq> None"
          unfolding \<open>sec = take a (drop b m)\<close> by (rule percent_search_sub)
        with none show False by simp
      qed
      then have "findall (percent_re db) sec = []" by (simp add: findall_Nil_iff)
      with assms ts0 True sec have "ts = []" unfolding parse_targets_def by simp
      with True l0 show ?thesis by simp
    qed
  qed
qed

lemma parse_targets_whole_text:
  assumes "parse_targets db m = Some ts"
  shows "those (map (py_float db) (concat (findall (percent_re db) m))) = Some ts"
proof -
  from assms obtain ts0 where ts0: "those (map (py_float db) (concat (findall (percent_re db) m))) = Some ts0"
    unfolding parse_targets_def by (auto split: option.splits)
  have len: "length ys = length xs" if "those xs = Some ys" for xs :: "real option list" and ys
    using that by (induction xs arbitrary: ys) (auto split: option.splits)
  from len [OF ts0] have l0: "length ts0 = length (findall (percent_re db) m)"
    by (simp add: length_concat_findall_percent)
  have "ts = ts0"
  proof (cases "ts0 = []")
    case False
    with assms ts0 show ?thesis unfolding parse_targets_def by simp
  next
    case True
    with l0 have none: "search (percent_re db) m = None" by (simp add: findall_Nil_iff)
    show ?thesis
    proof (cases "\<exists>sec. search (target_section_re db) m = Some [sec]")
      case False
      with assms ts0 True show ?thesis unfolding parse_targets_def
        by (auto split: option.splits list.splits)
    next
      case True': True
      then obtain sec where sec: "search (target_section_re db) m = Some [sec]" ..
      from search_groups_sub [OF sec] obtain a b where "sec = take a (drop b m)" by auto
      have "search (percent_re db) sec = None"
      proof (rule ccontr)
        assume "search (percent_re db) sec \<noteq> None"
        then have "search (percent_re db) m \<noteq> None"
          unfolding \<open>sec = take a (drop b m)\<close> by (rule percent_search_sub)
        with none show False by simp
      qed
      then have "findall (percent_re db) sec = []" by (simp add: findall_Nil_iff)
      with assms ts0 True sec have "ts = []" unfolding parse_targets_def by simp
      with True show ?thesis by simp
    qed
  qed
  with ts0 show ?thesis by simp
qed

section \<open>Properties of the connector and the executor\<close>

lemma get_balance_log: "snd (get_balance ex asset lg) = lg @ [Fetch_balance]"
  by (simp add: get_balance_def split: option.splits)

lemma get_min_order_size_log: "snd (get_min_order_size ex pair lg) = lg @ [Load_markets]"
  by (simp add: get_min_order_size_def split: option.splits)

lemma place_stop_loss_order_log:
  "snd (place_stop_loss_order ex pair amount stop_price lg) =
     lg @ stop_order_call ex pair amount stop_price #
       (if stop_order_reply ex pair amount stop_price lg = None
        then [Create_limit_order pair Sell amount stop_price] else [])"
  by (simp add: place_stop_loss_order_def place_limit_order_def split: option.splits)

lemma place_stop_loss_order_rejected:
  assumes "stop_order_reply ex pair amount stop_price lg = None"
  shows "place_stop_loss_order ex pair amount stop_price lg =
     (create_limit_order (exchange ex) (lg @ [stop_order_call ex pair amount stop_price]) pair Sell
        amount stop_price,
      lg @ [stop_order_call ex pair amount stop_price,
            Create_limit_order pair Sell amount stop_price])"
  using assms by (simp add: place_stop_loss_order_def place_limit_order_def)

lemma is_buy_order_simps:
  "\<not> is_buy_order Fetch_balance" "\<not> is_buy_order Load_markets"
  "is_buy_order (Create_limit_order pair sd amount price) \<longleftrightarrow> sd = Buy"
  "\<not> is_buy_order (stop_order_call ex pair amount stop_price)"
  by (simp_all add: is_buy_order_def stop_order_call_def)

lemma place_take_profits_log:
  "snd (place_take_profits ex pair amt avg ts lg) =
     lg @ map (\<lambda>t. Create_limit_order pair Sell amt (avg * (1 + t / 100))) ts"
  by (induction ts arbitrary: lg)
     (simp_all add: place_take_profit_order_def place_limit_order_def Let_def split_beta)

lemma execute_signal_False:
  "execute_signal cfg ex sg st = (False, st') \<Longrightarrow> active_trades st' = active_trades st"
  by (auto simp: execute_signal_def Let_def split: prod.splits option.splits if_splits)

lemma execute_signal_eq:
  assumes pair: "pair = get_symbol (symbol sg) (default_quote_asset cfg)"
    and bal: "bal = fst (get_balance ex (default_quote_asset cfg) (calls st))"
    and B: "B = min (bal * (position_size_percentage cfg / 100)) (max_position_size cfg)"
    and p1: "p1 = (fst (first_buy_range sg) + snd (first_buy_range sg)) / 2"
    and m: "m = fst (get_min_order_size ex pair (calls st @ [Fetch_balance]))"
    and a1: "a1 = (if B * 0.6 / p1 < m then m else B * 0.6 / p1)"
    and c1: "c1 = (if B * 0.6 / p1 < m then a1 * p1 else B * 0.6)"
    and lg3: "lg3 = calls st @ [Fetch_balance, Load_markets, Create_limit_order pair Buy a1 p1]"
    and a2: "a2 = B * 0.4 / second_buy sg"
    and sb: "sb = (if m \<le> a2 then place_limit_order ex pair Buy a2 (second_buy sg) lg3 else (None, lg3))"
    and tot: "tot = (case fst sb of Some _ \<Rightarrow> a1 + a2 | None \<Rightarrow> a1)"
    and cost: "cost = (case fst sb of Some _ \<Rightarrow> c1 + B * 0.4 | None \<Rightarrow> c1)"
    and avg: "avg = (if 0 < tot then cost / tot else p1)"
    and sl: "sl = (if enable_stop_loss cfg then place_stop_loss_order ex pair tot (stop_loss sg) (snd sb) else (None, snd sb))"
    and tp: "tp = (if enable_take_profit cfg \<and> targets sg \<noteq> []
                   then place_take_profits ex pair (tot / real (length (targets sg))) avg (targets sg) (snd sl)
                   else ([], snd sl))"
  shows "execute_signal cfg ex sg st =
     (if symbol sg \<in> dom (active_trades st) then (False, st)
      else if bal < 10 then (False, st\<lparr>calls := calls st @ [Fetch_balance]\<rparr>)
      else if p1 = 0 then (False, st\<lparr>calls := calls st @ [Fetch_balance]\<rparr>)
      else case create_limit_order (exchange ex) (calls st @ [Fetch_balance, Load_markets]) pair Buy a1 p1 of
             None \<Rightarrow> (False, st\<lparr>calls := lg3\<rparr>)
           | Some fo \<Rightarrow>
               if second_buy sg = 0 then (False, st\<lparr>calls := lg3\<rparr>)
               else (True, \<lparr> active_trades = (active_trades st)(symbol sg \<mapsto>
                             \<lparr> pair_symbol = pair, base_symbol = symbol sg, first_order = fo,
                               second_order = fst sb, stop_loss_order = fst sl,
                               take_profit_orders = fst tp, total_amount = tot,
                               avg_entry_price = avg, origin = sg \<rparr>),
                            calls = snd tp \<rparr>))"
proof -
  have gb: "get_balance ex (default_quote_asset cfg) (calls st) = (bal, calls st @ [Fetch_balance])"
    by (simp add: bal prod_eq_iff get_balance_log)
  have gm: "get_min_order_size ex pair (calls st @ [Fetch_balance]) = (m, calls st @ [Fetch_balance, Load_markets])"
    by (simp add: m prod_eq_iff get_min_order_size_log)
  have pl: "place_limit_order ex pair Buy a1 p1 (calls st @ [Fetch_balance, Load_markets]) =
      (create_limit_order (exchange ex) (calls st @ [Fetch_balance, Load_markets]) pair Buy a1 p1, lg3)"
    by (simp add: place_limit_order_def lg3)
  show ?thesis
    unfolding execute_signal_def pair [symmetric]
    apply (simp only: Let_def gb gm split_beta fst_conv snd_conv prod.case
        B [symmetric] p1 [symmetric])
    apply (simp only: a1 [symmetric])
    apply (simp only: c1 [symmetric] pl prod.case fst_conv snd_conv)
    apply (simp only: a2 [symmetric])
    apply (simp only: sb [symmetric])
    apply (simp only: tot [symmetric] cost [symmetric])
    apply (simp only: avg [symmetric])
    apply (simp only: sl [symmetric])
    apply (simp only: tp [symmetric])
    done
qed

lemma example_connector_facts:
  "get_symbol (text_of ''LSK'') (text_of ''USDT'') = text_of ''LSK/USDT''"
  "fst (get_balance (example_connector free ms acc) (text_of ''USDT'') lg) = free"
  "fst (get_min_order_size (example_connector free ms acc) (text_of ''LSK/USDT'') lg) = ms"
  "create_limit_order (exchange (example_connector free ms acc)) lg p sd a pr =
     (if acc (Create_limit_order p sd a pr) then Some (Order (length lg)) else None)"
  "create_order (exchange (example_connector free ms acc)) lg p ty sd a opr stop =
     (if acc (Create_order p ty sd a opr stop) then Some (Order (length lg)) else None)"
  "exchange_name (example_connector free ms acc) = text_of ''binance''"
  by (simp_all add: get_symbol_def get_balance_def get_min_order_size_def example_connector_def
      example_client_def text_of_def)


lemma execute_signal_success:
  assumes nd: "symbol sg \<notin> dom (active_trades st)" and "10 \<le> bal" and "p1 \<noteq> 0"
    and "create_limit_order (exchange ex) (calls st @ [Fetch_balance, Load_markets]) pair Buy a1 p1 = Some fo"
    and "second_buy sg \<noteq> 0"
    and pair: "pair = get_symbol (symbol sg) (default_quote_asset cfg)"
    and bal: "bal = fst (get_balance ex (default_quote_asset cfg) (calls st))"
    and B: "B = min (bal * (position_size_percentage cfg / 100)) (max_position_size cfg)"
    and p1: "p1 = (fst (first_buy_range sg) + snd (first_buy_range sg)) / 2"
    and m: "m = fst (get_min_order_size ex pair (calls st @ [Fetch_balance]))"
    and a1: "a1 = (if B * 0.6 / p1 < m then m else B * 0.6 / p1)"
    and c1: "c1 = (if B * 0.6 / p1 < m then a1 * p1 else B * 0.6)"
    and lg3: "lg3 = calls st @ [Fetch_balance, Load_markets, Create_limit_order pair Buy a1 p1]"
    and a2: "a2 = B * 0.4 / second_buy sg"
    and sb: "sb = (if m \<le> a2 then place_limit_order ex pair Buy a2 (second_buy sg) lg3 else (None, lg3))"
    and tot: "tot = (case fst sb of Some _ \<Rightarrow> a1 + a2 | None \<Rightarrow> a1)"
    and cost: "cost = (case fst sb of Some _ \<Rightarrow> c1 + B * 0.4 | None \<Rightarrow> c1)"
    and avg: "avg = (if 0 < tot then cost / tot else p1)"
    and sl: "sl = (if enable_stop_loss cfg then place_stop_loss_order ex pair tot (stop_loss sg) (snd sb) else (None, snd sb))"
    and tp: "tp = (if enable_take_profit cfg \<and> targets sg \<noteq> []
                   then place_take_profits ex pair (tot / real (length (targets sg))) avg (targets sg) (snd sl)
                   else ([], snd sl))"
  shows "execute_signal cfg ex sg st =
     (True, \<lparr> active_trades = (active_trades st)(symbol sg \<mapsto>
                             \<lparr> pair_symbol = pair, base_symbol = symbol sg, first_order = fo,
                               second_order = fst sb, stop_loss_order = fst sl,
                               take_profit_orders = fst tp, total_amount = tot,
                               avg_entry_price = avg, origin = sg \<rparr>),
                            calls = snd tp \<rparr>)"
  unfolding execute_signal_eq [OF pair bal B p1 m a1 c1 lg3 a2 sb tot cost avg sl tp]
  using assms(1-5) by simp



section \<open>Properties of the executor in floating-point arithmetic\<close>

lemma place_take_profits_fp_exact:
  "place_take_profits_fp (\<lambda>x. x) ex pair amt avg ts lg = place_take_profits ex pair amt avg ts lg"
  by (induction ts arbitrary: lg) simp_all

lemma execute_signal_fp_exact:
  "execute_signal_fp (\<lambda>x. x) cfg ex sg st = execute_signal cfg ex sg st"
  unfolding execute_signal_fp_def execute_signal_def place_take_profits_fp_exact ..

lemma place_take_profits_fp_log:
  "snd (place_take_profits_fp rnd ex pair amt avg ts lg) =
     lg @ map (\<lambda>t. Create_limit_order pair Sell amt (rnd (avg * rnd (1 + rnd (t / 100))))) ts"
  by (induction ts arbitrary: lg)
     (simp_all add: place_take_profit_order_def place_limit_order_def Let_def split_beta)

lemma execute_signal_fp_eq:
  assumes pair: "pair = get_symbol (symbol sg) (default_quote_asset cfg)"
    and bal: "bal = fst (get_balance ex (default_quote_asset cfg) (calls st))"
    and B: "B = min (rnd (bal * rnd (position_size_percentage cfg / 100))) (max_position_size cfg)"
    and p1: "p1 = rnd (rnd (fst (first_buy_range sg) + snd (first_buy_range sg)) / 2)"
    and m: "m = fst (get_min_order_size ex pair (calls st @ [Fetch_balance]))"
    and a0: "a0 = rnd (rnd (B * rnd 0.6) / p1)"
    and a1: "a1 = (if a0 < m then m else a0)"
    and c1: "c1 = (if a0 < m then rnd (a1 * p1) else rnd (B * rnd 0.6))"
    and lg3: "lg3 = calls st @ [Fetch_balance, Load_markets, Create_limit_order pair Buy a1 p1]"
    and c2: "c2 = rnd (B * rnd 0.4)"
    and a2: "a2 = rnd (c2 / second_buy sg)"
    and sb: "sb = (if m \<le> a2 then place_limit_order ex pair Buy a2 (second_buy sg) lg3 else (None, lg3))"
    and tot: "tot = (case fst sb of Some _ \<Rightarrow> rnd (a1 + a2) | None \<Rightarrow> a1)"
    and cost: "cost = (case fst sb of Some _ \<Rightarrow> rnd (c1 + c2) | None \<Rightarrow> c1)"
    and avg: "avg = (if 0 < tot then rnd (cost / tot) else p1)"
    and sl: "sl = (if enable_stop_loss cfg then place_stop_loss_order ex pair tot (stop_loss sg) (snd sb) else (None, snd sb))"
    and tp: "tp = (if enable_take_profit cfg \<and> targets sg \<noteq> []
                   then place_take_profits_fp rnd ex pair (rnd (tot / real (length (targets sg)))) avg
                          (targets sg) (snd sl)
                   else ([], snd sl))"
  shows "execute_signal_fp rnd cfg ex sg st =
     (if symbol sg \<in> dom (active_trades st) then (False, st)
      else if bal < 10 then (False, st\<lparr>calls := calls st @ [Fetch_balance]\<rparr>)
      else if p1 = 0 then (False, st\<lparr>calls := calls st @ [Fetch_balance]\<rparr>)
      else case create_limit_order (exchange ex) (calls st @ [Fetch_balance, Load_markets]) pair Buy a1 p1 of
             None \<Rightarrow> (False, st\<lparr>calls := lg3\<rparr>)
           | Some fo \<Rightarrow>
               if second_buy sg = 0 then (False, st\<lparr>calls := lg3\<rparr>)
               else (True, \<lparr> active_trades = (active_trades st)(symbol sg \<mapsto>
                             \<lparr> pair_symbol = pair, base_symbol = symbol sg, first_order = fo,
                               second_order = fst sb, stop_loss_order = fst sl,
                               take_profit_orders = fst tp, total_amount = tot,
                               avg_entry_price = avg, origin = sg \<rparr>),
                            calls = snd tp \<rparr>))"
proof -
  have gb: "get_balance ex (default_quote_asset cfg) (calls st) = (bal, calls st @ [Fetch_balance])"
    by (simp add: bal prod_eq_iff get_balance_log)
  have gm: "get_min_order_size ex pair (calls st @ [Fetch_balance]) = (m, calls st @ [Fetch_balance, Load_markets])"
    by (simp add: m prod_eq_iff get_min_order_size_log)
  have pl: "place_limit_order ex pair Buy a1 p1 (calls st @ [Fetch_balance, Load_markets]) =
      (create_limit_order (exchange ex) (calls st @ [Fetch_balance, Load_markets]) pair Buy a1 p1, lg3)"
    by (simp add: place_limit_order_def lg3)
  show ?thesis
    unfolding execute_signal_fp_def pair [symmetric]
    apply (simp only: Let_def gb gm split_beta fst_conv snd_conv prod.case
        B [symmetric] p1 [symmetric])
    apply (simp only: a0 [symmetric])
    apply (simp only: a1 [symmetric])
    apply (simp only: c1 [symmetric] pl prod.case fst_conv snd_conv)
    apply (simp only: c2 [symmetric])
    apply (simp only: a2 [symmetric])
    apply (simp only: sb [symmetric])
    apply (simp only: tot [symmetric] cost [symmetric])
    apply (simp only: avg [symmetric])
    apply (simp only: sl [symmetric])
    apply (simp only: tp [symmetric])
    done
qed

lemma execute_signal_fp_True:
  assumes run: "execute_signal_fp rnd cfg ex sg st = (True, st')"
    and pair: "pair = get_symbol (symbol sg) (default_quote_asset cfg)"
    and bal: "bal = fst (get_balance ex (default_quote_asset cfg) (calls st))"
    and B: "B = min (rnd (bal * rnd (position_size_percentage cfg / 100))) (max_position_size cfg)"
    and p1: "p1 = rnd (rnd (fst (first_buy_range sg) + snd (first_buy_range sg)) / 2)"
    and m: "m = fst (get_min_order_size ex pair (calls st @ [Fetch_balance]))"
    and a0: "a0 = rnd (rnd (B * rnd 0.6) / p1)"
    and a1: "a1 = (if a0 < m then m else a0)"
    and c1: "c1 = (if a0 < m then rnd (a1 * p1) else rnd (B * rnd 0.6))"
    and lg3: "lg3 = calls st @ [Fetch_balance, Load_markets, Create_limit_order pair Buy a1 p1]"
    and c2: "c2 = rnd (B * rnd 0.4)"
    and a2: "a2 = rnd (c2 / second_buy sg)"
    and sb: "sb = (if m \<le> a2 then place_limit_order ex pair Buy a2 (second_buy sg) lg3 else (None, lg3))"
    and tot: "tot = (case fst sb of Some _ \<Rightarrow> rnd (a1 + a2) | None \<Rightarrow> a1)"
    and cost: "cost = (case fst sb of Some _ \<Rightarrow> rnd (c1 + c2) | None \<Rightarrow> c1)"
    and avg: "avg = (if 0 < tot then rnd (cost / tot) else p1)"
    and sl: "sl = (if enable_stop_loss cfg then place_stop_loss_order ex pair tot (stop_loss sg) (snd sb) else (None, snd sb))"
    and tp: "tp = (if enable_take_profit cfg \<and> targets sg \<noteq> []
                   then place_take_profits_fp rnd ex pair (rnd (tot / real (length (targets sg)))) avg
                          (targets sg) (snd sl)
                   else ([], snd sl))"
  shows "\<exists>fo. st' = \<lparr> active_trades = (active_trades st)(symbol sg \<mapsto>
                             \<lparr> pair_symbol = pair, base_symbol = symbol sg, first_order = fo,
                               second_order = fst sb, stop_loss_order = fst sl,
                               take_profit_orders = fst tp, total_amount = tot,
                               avg_entry_price = avg, origin = sg \<rparr>),
                            calls = snd tp \<rparr>"
  using run
  unfolding execute_signal_fp_eq [OF pair bal B p1 m a0 a1 c1 lg3 c2 a2 sb tot cost avg sl tp]
  by (auto split: if_splits option.splits)

section \<open>Properties of the ledger as objects\<close>

lemma lookup_append:
  "lookup (h @ [x]) r = (if r = length h then Some x else lookup h r)"
  by (auto simp: lookup_def nth_append)

lemma lookup_update:
  "lookup (h[r := x]) a = (if a = r \<and> r < length h then Some x else lookup h a)"
  by (auto simp: lookup_def)

lemma lookup_length: "lookup h (length h) = None"
  by (simp add: lookup_def)

lemma contents_cong:
  assumes "lookup h' r = lookup h r"
    and "\<And>a. a \<noteq> q \<Longrightarrow> lookup h' a = lookup h a"
    and "\<exists>d. lookup h' q = Some (Dict d)"
    and "lookup h q = None \<or> (\<exists>d. lookup h q = Some (Dict d))"
  shows "contents h' r = contents h r"
proof -
  have "(case lookup h' a of Some (Trade_dict t) \<Rightarrow> Some t | _ \<Rightarrow> None) =
        (case lookup h a of Some (Trade_dict t) \<Rightarrow> Some t | _ \<Rightarrow> None)" for a
  proof (cases "a = q")
    case True
    with assms(3,4) show ?thesis by auto
  next
    case False
    with assms(2) show ?thesis by simp
  qed
  then show ?thesis
    unfolding contents_def assms(1) by (auto split: option.splits obj.splits intro!: ext)
qed

section \<open>The parser on the example messages\<close>

lemma example_floats:
  "py_float ascii (text_of ''0.208'') = Some 0.208" "py_float ascii (text_of ''0.210'') = Some 0.21"
  "py_float ascii (text_of ''0.205'') = Some 0.205" "py_float ascii (text_of ''0.209'') = Some 0.209"
  "py_float ascii (text_of ''0.195'') = Some 0.195" "py_float ascii (text_of ''0'') = Some 0"
  "py_float ascii (text_of ''5'') = Some 5" "py_float ascii (text_of ''10'') = Some 10"
  "py_float ascii (text_of ''15'') = Some 15"
  by code_simp+

lemma example_upper: "concat (map (upper ascii) (text_of ''LSK'')) = text_of ''LSK''"
  by code_simp

lemma example_message_searches:
  "search (symbol_re ascii) example_message = Some [text_of ''LSK'']"
  "search (first_buy_re ascii) example_message = Some [text_of ''0.208'', text_of ''0.210'']"
  "search (second_buy_re ascii) example_message = Some [text_of ''0.205'']"
  "search (cmp_re ascii) example_message = Some [text_of ''0.209'']"
  "search (sl_re ascii) example_message = Some [text_of ''0.195'']"
  "findall (percent_re ascii) example_message = [[text_of ''5''], [text_of ''10''], [text_of ''15'']]"
  by code_simp+

lemma parse_example_message: "parse_message ascii example_message = Some example_signal"
  by (simp add: parse_message_def parse_targets_def example_message_searches example_floats
      example_upper example_signal_def)

lemma no_targets_message_searches:
  "search (symbol_re ascii) no_targets_message = Some [text_of ''LSK'']"
  "search (first_buy_re ascii) no_targets_message = Some [text_of ''0.208'', text_of ''0.210'']"
  "search (second_buy_re ascii) no_targets_message = Some [text_of ''0.205'']"
  "search (cmp_re ascii) no_targets_message = Some [text_of ''0.209'']"
  "search (sl_re ascii) no_targets_message = Some [text_of ''0.195'']"
  "findall (percent_re ascii) no_targets_message = []"
  "search (target_section_re ascii) no_targets_message = None"
  by code_simp+

lemma parse_no_targets_message:
  "parse_message ascii no_targets_message = Some (example_signal\<lparr>targets := []\<rparr>)"
  by (simp add: parse_message_def parse_targets_def no_targets_message_searches example_floats
      example_upper example_signal_def)

lemma zero_second_message_searches:
  "search (symbol_re ascii) zero_second_message = Some [text_of ''LSK'']"
  "search (first_buy_re ascii) zero_second_message = Some [text_of ''0.208'', text_of ''0.210'']"
  "search (second_buy_re ascii) zero_second_message = Some [text_of ''0'']"
  "search (cmp_re ascii) zero_second_message = Some [text_of ''0.209'']"
  "search (sl_re ascii) zero_second_message = Some [text_of ''0.195'']"
  "findall (percent_re ascii) zero_second_message = [[text_of ''5''], [text_of ''10''], [text_of ''15'']]"
  by code_simp+

lemma parse_zero_second_message:
  "parse_message ascii zero_second_message = Some zero_second_signal"
  by (simp add: parse_message_def parse_targets_def zero_second_message_searches example_floats
      example_upper example_signal_def zero_second_signal_def)

section \<open>The executor on the example inputs\<close>

lemmas example_defs = default_config_def example_signal_def new_executor_def accept_all_def
  deep_second_signal_def zero_second_signal_def

lemma example_sizing:
  "text_of ''LSK/USDT'' = get_symbol (symbol example_signal) (default_quote_asset default_config)"
  "text_of ''LSK/USDT'' = get_symbol (symbol deep_second_signal) (default_quote_asset default_config)"
  "free = fst (get_balance (example_connector free ms acc) (default_quote_asset default_config) lg)"
  "ms = fst (get_min_order_size (example_connector free ms acc) (text_of ''LSK/USDT'') lg)"
  "100 = min (1000 * (position_size_percentage default_config / 100)) (max_position_size default_config)"
  "0.209 = (fst (first_buy_range example_signal) + snd (first_buy_range example_signal)) / 2"
  "0.209 = (fst (first_buy_range deep_second_signal) + snd (first_buy_range deep_second_signal)) / 2"
  by (simp_all add: example_connector_facts example_defs)

lemma example_not_held:
  "symbol example_signal \<notin> dom (active_trades new_executor)"
  "symbol deep_second_signal \<notin> dom (active_trades new_executor)"
  by (simp_all add: example_defs)

lemma example_amounts:
  "(60::real) / 0.209 = (if 100 * 0.6 / 0.209 < (1::real) then 1 else 100 * 0.6 / 0.209)"
  "(60::real) / 0.209 = (if 100 * 0.6 / 0.209 < (200::real) then 200 else 100 * 0.6 / 0.209)"
  "(40::real) / 0.205 = 100 * 0.4 / second_buy example_signal"
  "(400::real) = 100 * 0.4 / second_buy deep_second_signal"
  by (simp_all add: example_defs)

section \<open>The executor in doubles on the signal to buy at 13\<close>

lemma thirteen_arith:
  "(100::real) = min (round_double (1000 * round_double (position_size_percentage default_config / 100)))
            (max_position_size default_config)"
  "(13::real) = round_double (round_double (fst (first_buy_range thirteen_signal) +
            snd (first_buy_range thirteen_signal)) / 2)"
  "(2598230554252209::real) / 2 ^ 49 = round_double (round_double (100 * round_double 0.6) / 13)"
  "(2598230554252209::real) / 2 ^ 49 =
     (if (2598230554252209::real) / 2 ^ 49 < 4 then 4 else 2598230554252209 / 2 ^ 49)"
  "(60::real) =
     (if (2598230554252209::real) / 2 ^ 49 < 4 then round_double (2598230554252209 / 2 ^ 49 * 13)
      else round_double (100 * round_double 0.6))"
  "(40::real) = round_double (100 * round_double 0.4)"
  "(5::real) / 2 = round_double (40 / second_buy thirteen_signal)"
  "(7318349394477057::real) / 2 ^ 49 =
     (if (0::real) < 2598230554252209 / 2 ^ 49 then round_double (60 / (2598230554252209 / 2 ^ 49))
      else 13)"
  "(7318349394477057::real) / 2 ^ 49 = round_double (60 / (2598230554252209 / 2 ^ 49))"
  by code_simp+

lemma thirteen_exchange:
  "text_of ''LSK/USDT'' = get_symbol (symbol thirteen_signal) (default_quote_asset default_config)"
  "1000 = fst (get_balance (example_connector 1000 4 accept_all)
                (default_quote_asset default_config) (calls new_executor))"
  "4 = fst (get_min_order_size (example_connector 1000 4 accept_all) (text_of ''LSK/USDT'')
             (calls new_executor @ [Fetch_balance]))"
  by (simp_all add: example_connector_facts default_config_def thirteen_signal_def)

lemma thirteen_fields:
  "symbol thirteen_signal = text_of ''LSK''"
  "second_buy thirteen_signal = 16"
  "stop_loss thirteen_signal = 12"
  by (simp_all add: thirteen_signal_def)

lemma thirteen_run_trade:
  "fst thirteen_run"
  "\<exists>r. active_trades (snd thirteen_run) (text_of ''LSK'') = Some r \<and> second_order r = None \<and>
       total_amount r = 2598230554252209 / 2 ^ 49 \<and> avg_entry_price r = 7318349394477057 / 2 ^ 49"
  "take 3 (calls (snd thirteen_run)) =
     [Fetch_balance, Load_markets,
      Create_limit_order (text_of ''LSK/USDT'') Buy (2598230554252209 / 2 ^ 49) 13]"
proof -
  let ?c1 = "Create_limit_order (text_of ''LSK/USDT'') Buy (2598230554252209 / 2 ^ 49) 13"
  have lg3: "[Fetch_balance, Load_markets, ?c1] = calls new_executor @ [Fetch_balance, Load_markets, ?c1]"
    by (simp add: new_executor_def)
  have sb: "(None, [Fetch_balance, Load_markets, ?c1]) =
      (if (4::real) \<le> 5 / 2
       then place_limit_order (example_connector 1000 4 accept_all) (text_of ''LSK/USDT'') Buy (5 / 2)
              (second_buy thirteen_signal) [Fetch_balance, Load_markets, ?c1]
       else (None, [Fetch_balance, Load_markets, ?c1]))"
    by simp
  have tot: "(2598230554252209::real) / 2 ^ 49 =
      (case fst (None :: order option, [Fetch_balance, Load_markets, ?c1]) of
         Some _ \<Rightarrow> round_double (2598230554252209 / 2 ^ 49 + 5 / 2)
       | None \<Rightarrow> 2598230554252209 / 2 ^ 49)"
    by simp
  have cost: "(60::real) =
      (case fst (None :: order option, [Fetch_balance, Load_markets, ?c1]) of
         Some _ \<Rightarrow> round_double (60 + 40) | None \<Rightarrow> 60)"
    by simp
  note run = execute_signal_fp_eq [OF thirteen_exchange(1) thirteen_exchange(2) thirteen_arith(1)
        thirteen_arith(2) thirteen_exchange(3) thirteen_arith(3) thirteen_arith(4) thirteen_arith(5)
        lg3 thirteen_arith(6) thirteen_arith(7) sb tot cost thirteen_arith(8) refl refl]
  show "fst thirteen_run"
    unfolding thirteen_run_def run
    by (simp add: example_connector_facts accept_all_def new_executor_def thirteen_fields)
  show "\<exists>r. active_trades (snd thirteen_run) (text_of ''LSK'') = Some r \<and> second_order r = None \<and>
       total_amount r = 2598230554252209 / 2 ^ 49 \<and> avg_entry_price r = 7318349394477057 / 2 ^ 49"
    unfolding thirteen_run_def run
    by (simp add: example_connector_facts accept_all_def new_executor_def thirteen_fields)
  show "take 3 (calls (snd thirteen_run)) = [Fetch_balance, Load_markets, ?c1]"
    unfolding thirteen_run_def run
    by (simp add: example_connector_facts accept_all_def new_executor_def thirteen_fields
        place_take_profits_fp_log place_stop_loss_order_log)
qed

section \<open>The claims\<close>

text \<open>
  C1 says that a trade is recorded in the ledger if and only if the first buy order
  succeeded. The code does not keep to it: on a signal whose second buying price is zero,
  as the message \<open>Second buying: 0\<close> yields, the first buy order is placed and accepted by
  the exchange, then the division of line 101 raises \<open>ZeroDivisionError\<close>, and
  \<open>execute_signal\<close> returns \<open>False\<close> with the ledger unchanged.
\<close>

theorem first_buy_placed_but_not_recorded:
  "parse_message ascii zero_second_message = Some zero_second_signal \<and>
   create_limit_order (exchange (example_connector 1000 1 accept_all)) [Fetch_balance, Load_markets]
     (text_of ''LSK/USDT'') Buy (60 / 0.209) 0.209 = Some (Order 2) \<and>
   execute_signal default_config (example_connector 1000 1 accept_all) zero_second_signal new_executor =
     (False, \<lparr> active_trades = active_trades new_executor,
               calls = [Fetch_balance, Load_markets,
                        Create_limit_order (text_of ''LSK/USDT'') Buy (60 / 0.209) 0.209] \<rparr>)"
  unfolding execute_signal_eq [OF refl refl refl refl refl refl refl refl refl refl refl refl refl refl refl]
  by (simp add: parse_zero_second_message example_connector_facts example_defs)

text \<open>
  C2. A signal whose symbol already has an active trade in the ledger is refused at once:
  \<open>execute_signal\<close> returns \<open>False\<close> and the executor is as before, its ledger unchanged
  and no request added to the log of the exchange (no balance query, no query of the
  minimum order size, no order).
\<close>

theorem duplicate_symbol_rejected:
  "symbol sg \<in> dom (active_trades st) \<Longrightarrow> execute_signal cfg ex sg st = (False, st)"
  by (simp add: execute_signal_def)

theorem duplicate_symbol_rejected_witness:
  "symbol example_signal \<in> dom (active_trades holding_executor) \<and>
   execute_signal default_config (example_connector 1000 1 accept_all) example_signal
     holding_executor = (False, holding_executor)"
proof -
  have held: "symbol example_signal \<in> dom (active_trades holding_executor)"
    by (simp add: example_signal_def holding_executor_def)
  from held duplicate_symbol_rejected [OF held] show ?thesis by blast
qed

text \<open>
  C3, as the code has it. When \<open>execute_signal\<close> succeeds, the average entry price of
  the recorded trade is the total cost divided by the total amount, each operation
  rounded as floating-point arithmetic rounds it, both totals taken over the tranches
  whose orders succeeded: the first always, the second only when its order was placed
  (its amount reaches the minimum order size) and the exchange returned an order. If
  the total amount is not positive, the average entry price falls back to the price of
  the first tranche. If only the first tranche succeeded and its amount is positive, the
  average entry price is the rounded quotient of the cost of the first tranche by its
  amount. This holds for every rounding \<open>rnd\<close>, among them \<open>round_double\<close> and the
  identity, which is exact arithmetic.
\<close>

theorem average_entry_price_in_floating_point:
  assumes run: "execute_signal_fp rnd cfg ex sg st = (True, st')"
    and pair: "pair = get_symbol (symbol sg) (default_quote_asset cfg)"
    and bal: "bal = fst (get_balance ex (default_quote_asset cfg) (calls st))"
    and B: "B = min (rnd (bal * rnd (position_size_percentage cfg / 100))) (max_position_size cfg)"
    and p1: "p1 = rnd (rnd (fst (first_buy_range sg) + snd (first_buy_range sg)) / 2)"
    and m: "m = fst (get_min_order_size ex pair (calls st @ [Fetch_balance]))"
    and a0: "a0 = rnd (rnd (B * rnd 0.6) / p1)"
    and a1: "a1 = (if a0 < m then m else a0)"
    and c1: "c1 = (if a0 < m then rnd (a1 * p1) else rnd (B * rnd 0.6))"
    and c2: "c2 = rnd (B * rnd 0.4)"
    and a2: "a2 = rnd (c2 / second_buy sg)"
  shows "\<exists>r. active_trades st' (symbol sg) = Some r \<and>
     second_order r =
       (if m \<le> a2
        then create_limit_order (exchange ex)
               (calls st @ [Fetch_balance, Load_markets, Create_limit_order pair Buy a1 p1])
               pair Buy a2 (second_buy sg)
        else None) \<and>
     total_amount r = (if second_order r = None then a1 else rnd (a1 + a2)) \<and>
     (0 < total_amount r \<longrightarrow>
        avg_entry_price r =
          rnd ((if second_order r = None then c1 else rnd (c1 + c2)) / total_amount r)) \<and>
     (total_amount r \<le> 0 \<longrightarrow> avg_entry_price r = p1) \<and>
     (second_order r = None \<and> 0 < a1 \<longrightarrow> avg_entry_price r = rnd (c1 / a1))"
proof -
  define lg3 where "lg3 = calls st @ [Fetch_balance, Load_markets, Create_limit_order pair Buy a1 p1]"
  define sb where "sb = (if m \<le> a2 then place_limit_order ex pair Buy a2 (second_buy sg) lg3 else (None, lg3))"
  define tot where "tot = (case fst sb of Some _ \<Rightarrow> rnd (a1 + a2) | None \<Rightarrow> a1)"
  define cost where "cost = (case fst sb of Some _ \<Rightarrow> rnd (c1 + c2) | None \<Rightarrow> c1)"
  define avg where "avg = (if 0 < tot then rnd (cost / tot) else p1)"
  define sl where "sl = (if enable_stop_loss cfg then place_stop_loss_order ex pair tot (stop_loss sg) (snd sb) else (None, snd sb))"
  define tp where "tp = (if enable_take_profit cfg \<and> targets sg \<noteq> []
                   then place_take_profits_fp rnd ex pair (rnd (tot / real (length (targets sg)))) avg
                          (targets sg) (snd sl)
                   else ([], snd sl))"
  from execute_signal_fp_True [OF run pair bal B p1 m a0 a1 c1 lg3_def c2 a2 sb_def tot_def
      cost_def avg_def sl_def tp_def]
  obtain fo where st': "st' = \<lparr> active_trades = (active_trades st)(symbol sg \<mapsto>
                             \<lparr> pair_symbol = pair, base_symbol = symbol sg, first_order = fo,
                               second_order = fst sb, stop_loss_order = fst sl,
                               take_profit_orders = fst tp, total_amount = tot,
                               avg_entry_price = avg, origin = sg \<rparr>),
                            calls = snd tp \<rparr>"
    by blast
  let ?r = "\<lparr> pair_symbol = pair, base_symbol = symbol sg, first_order = fo,
              second_order = fst sb, stop_loss_order = fst sl,
              take_profit_orders = fst tp, total_amount = tot,
              avg_entry_price = avg, origin = sg \<rparr>"
  have r: "active_trades st' (symbol sg) = Some ?r" by (simp add: st')
  have so: "fst sb = (if m \<le> a2
        then create_limit_order (exchange ex) lg3 pair Buy a2 (second_buy sg) else None)"
    by (simp add: sb_def place_limit_order_def)
  have tot_eq: "tot = (if fst sb = None then a1 else rnd (a1 + a2))"
    by (simp add: tot_def split: option.splits)
  have cost_eq: "cost = (if fst sb = None then c1 else rnd (c1 + c2))"
    by (simp add: cost_def split: option.splits)
  show ?thesis
    apply (rule exI [of _ ?r])
    apply (simp only: r trade.simps simp_thms)
    apply (intro conjI impI)
    subgoal by (simp add: so lg3_def)
    subgoal by (rule tot_eq)
    subgoal by (simp add: avg_def cost_eq)
    subgoal by (simp add: avg_def)
    subgoal by (simp add: avg_def tot_eq cost_eq)
    done
qed

theorem average_entry_price_in_floating_point_witness:
  "fst thirteen_run \<and>
   (\<exists>r. active_trades (snd thirteen_run) (symbol thirteen_signal) = Some r \<and>
     second_order r =
       (if (4::real) \<le> 5 / 2
        then create_limit_order (exchange (example_connector 1000 4 accept_all))
               (calls new_executor @ [Fetch_balance, Load_markets,
                  Create_limit_order (text_of ''LSK/USDT'') Buy (2598230554252209 / 2 ^ 49) 13])
               (text_of ''LSK/USDT'') Buy (5 / 2) (second_buy thirteen_signal)
        else None) \<and>
     total_amount r =
       (if second_order r = None then 2598230554252209 / 2 ^ 49
        else round_double (2598230554252209 / 2 ^ 49 + 5 / 2)) \<and>
     (0 < total_amount r \<longrightarrow>
        avg_entry_price r =
          round_double ((if second_order r = None then 60 else round_double (60 + 40)) / total_amount r)) \<and>
     (total_amount r \<le> 0 \<longrightarrow> avg_entry_price r = 13) \<and>
     (second_order r = None \<and> (0::real) < 2598230554252209 / 2 ^ 49 \<longrightarrow>
        avg_entry_price r = round_double (60 / (2598230554252209 / 2 ^ 49))))"
proof -
  have run: "execute_signal_fp round_double default_config (example_connector 1000 4 accept_all)
      thirteen_signal new_executor = (True, snd thirteen_run)"
    using thirteen_run_trade(1) by (simp add: thirteen_run_def prod_eq_iff)
  show ?thesis
    by (rule conjI [OF thirteen_run_trade(1)
          average_entry_price_in_floating_point [OF run thirteen_exchange(1) thirteen_exchange(2)
            thirteen_arith(1) thirteen_arith(2) thirteen_exchange(3) thirteen_arith(3)
            thirteen_arith(4) thirteen_arith(5) thirteen_arith(6) thirteen_arith(7)]])
qed

text \<open>
  C3, as the claim states it, fails: when only the first tranche succeeds, the average
  entry price need not be the price of the first tranche. With 1000 USDT free, a minimum
  order size of 4 and the signal to buy at 13, the first order is for \<open>60 / 13\<close> rounded
  to a double, \<open>2598230554252209 / 2 ^ 49\<close>, at the price 13; the second tranche, of
  2.5, is below the minimum and skipped; and the average entry price is 60 divided by
  that amount and rounded, \<open>7318349394477057 / 2 ^ 49\<close>, which Python prints as
  \<open>13.000000000000002\<close>.
\<close>

theorem first_tranche_average_counterexample:
  "fst thirteen_run \<and>
   take 3 (calls (snd thirteen_run)) =
     [Fetch_balance, Load_markets,
      Create_limit_order (text_of ''LSK/USDT'') Buy (2598230554252209 / 2 ^ 49) 13] \<and>
   second_order (the (active_trades (snd thirteen_run) (text_of ''LSK''))) = None \<and>
   avg_entry_price (the (active_trades (snd thirteen_run) (text_of ''LSK''))) =
     7318349394477057 / 2 ^ 49 \<and>
   avg_entry_price (the (active_trades (snd thirteen_run) (text_of ''LSK''))) \<noteq> 13"
proof -
  from thirteen_run_trade(2) obtain r
    where r: "active_trades (snd thirteen_run) (text_of ''LSK'') = Some r"
      and so: "second_order r = None"
      and avg: "avg_entry_price r = 7318349394477057 / 2 ^ 49"
    by blast
  have "(7318349394477057::real) / 2 ^ 49 \<noteq> 13" by simp
  with thirteen_run_trade(1) thirteen_run_trade(3) so avg show ?thesis
    unfolding r option.sel by simp
qed







text \<open>
  C7, as the code has it. On every text for which \<open>parse_message\<close> returns a signal, the
  targets are the percentages \<open>(\d+)%\<close> found in the text, read as numbers and sorted in
  ascending order, duplicates retained: one target for each percentage, and none when
  the text has no percentage. The symbol, the first buying range, the second buying
  price, the CMP and the stop loss must all be found, or \<open>parse_message\<close> returns
  nothing.
\<close>

theorem targets_sorted_possibly_empty:
  assumes "parse_message db message_content = Some sg"
  shows "sorted (targets sg) \<and>
         (\<exists>ts. those (map (py_float db) (concat (findall (percent_re db) message_content))) = Some ts \<and>
               targets sg = sort ts) \<and>
         length (targets sg) = length (findall (percent_re db) message_content) \<and>
         search (symbol_re db) message_content \<noteq> None \<and>
         search (first_buy_re db) message_content \<noteq> None \<and>
         search (second_buy_re db) message_content \<noteq> None \<and>
         search (cmp_re db) message_content \<noteq> None \<and>
         search (sl_re db) message_content \<noteq> None"
proof -
  from parse_message_Some [OF assms] obtain ts
    where ts: "parse_targets db message_content = Some ts" and sg: "targets sg = sort ts"
      and found: "search (symbol_re db) message_content \<noteq> None"
        "search (first_buy_re db) message_content \<noteq> None"
        "search (second_buy_re db) message_content \<noteq> None"
        "search (cmp_re db) message_content \<noteq> None"
        "search (sl_re db) message_content \<noteq> None"
    by blast
  have "sorted (targets sg)" unfolding sg by (rule sorted_sort)
  moreover have "\<exists>ts. those (map (py_float db) (concat (findall (percent_re db) message_content))) = Some ts \<and>
               targets sg = sort ts"
    using parse_targets_whole_text [OF ts] sg by blast
  moreover have "length (targets sg) = length (findall (percent_re db) message_content)"
    unfolding sg using parse_targets_length [OF ts] by simp
  ultimately show ?thesis using found by blast
qed

theorem targets_sorted_possibly_empty_witness:
  "parse_message ascii example_message = Some example_signal \<and>
   sorted (targets example_signal) \<and>
   (\<exists>ts. those (map (py_float ascii) (concat (findall (percent_re ascii) example_message))) = Some ts \<and>
         targets example_signal = sort ts) \<and>
   length (targets example_signal) = length (findall (percent_re ascii) example_message) \<and>
   search (symbol_re ascii) example_message \<noteq> None \<and>
   search (first_buy_re ascii) example_message \<noteq> None \<and>
   search (second_buy_re ascii) example_message \<noteq> None \<and>
   search (cmp_re ascii) example_message \<noteq> None \<and>
   search (sl_re ascii) example_message \<noteq> None"
  by (rule conjI [OF parse_example_message
        targets_sorted_possibly_empty [OF parse_example_message]])

text \<open>
  C7, as the claim states it, fails: a message with every field but no percentage is
  parsed into a signal whose list of targets is empty.
\<close>

theorem empty_targets_counterexample:
  "parse_message ascii no_targets_message = Some no_targets_signal \<and>
   targets no_targets_signal = []"
  using parse_no_targets_message by (simp add: no_targets_signal_def)

text \<open>
  C8. When the first buy succeeded, stop losses are enabled and the exchange rejects the
  stop order, the next request is a limit sell order for the same amount at the same stop
  price. Whatever the exchange answers to it, \<open>execute_signal\<close> returns \<open>True\<close> and the
  trade is recorded; its stop-loss order is the answer to the limit sell, none if that
  failed too.
\<close>

theorem stop_loss_falls_back_to_limit_sell:
  assumes nd: "symbol sg \<notin> dom (active_trades st)"
    and pair: "pair = get_symbol (symbol sg) (default_quote_asset cfg)"
    and bal: "bal = fst (get_balance ex (default_quote_asset cfg) (calls st))"
    and B: "B = min (bal * (position_size_percentage cfg / 100)) (max_position_size cfg)"
    and p1: "p1 = (fst (first_buy_range sg) + snd (first_buy_range sg)) / 2"
    and m: "m = fst (get_min_order_size ex pair (calls st @ [Fetch_balance]))"
    and a1: "a1 = (if B * 0.6 / p1 < m then m else B * 0.6 / p1)"
    and a2: "a2 = B * 0.4 / second_buy sg"
    and lg3: "lg3 = calls st @ [Fetch_balance, Load_markets, Create_limit_order pair Buy a1 p1]"
    and sb: "sb = (if m \<le> a2 then place_limit_order ex pair Buy a2 (second_buy sg) lg3 else (None, lg3))"
    and tot: "tot = (case fst sb of Some _ \<Rightarrow> a1 + a2 | None \<Rightarrow> a1)"
    and enough: "10 \<le> bal" and p1_nz: "p1 \<noteq> 0"
    and first: "create_limit_order (exchange ex) (calls st @ [Fetch_balance, Load_markets])
                  pair Buy a1 p1 = Some fo"
    and s_nz: "second_buy sg \<noteq> 0"
    and enabled: "enable_stop_loss cfg"
    and rejected: "stop_order_reply ex pair tot (stop_loss sg) (snd sb) = None"
  shows "\<exists>st' r rest. execute_signal cfg ex sg st = (True, st') \<and>
           calls st' = snd sb @ [stop_order_call ex pair tot (stop_loss sg),
                                 Create_limit_order pair Sell tot (stop_loss sg)] @ rest \<and>
           active_trades st' (symbol sg) = Some r \<and>
           total_amount r = tot \<and>
           stop_loss_order r =
             create_limit_order (exchange ex)
               (snd sb @ [stop_order_call ex pair tot (stop_loss sg)]) pair Sell tot (stop_loss sg)"
proof -
  define c1 where "c1 = (if B * 0.6 / p1 < m then a1 * p1 else B * 0.6)"
  define cost where "cost = (case fst sb of Some _ \<Rightarrow> c1 + B * 0.4 | None \<Rightarrow> c1)"
  define avg where "avg = (if 0 < tot then cost / tot else p1)"
  define sl where "sl = (if enable_stop_loss cfg then place_stop_loss_order ex pair tot (stop_loss sg) (snd sb) else (None, snd sb))"
  define tp where "tp = (if enable_take_profit cfg \<and> targets sg \<noteq> []
                   then place_take_profits ex pair (tot / real (length (targets sg))) avg (targets sg) (snd sl)
                   else ([], snd sl))"
  let ?r = "\<lparr> pair_symbol = pair, base_symbol = symbol sg, first_order = fo,
              second_order = fst sb, stop_loss_order = fst sl,
              take_profit_orders = fst tp, total_amount = tot,
              avg_entry_price = avg, origin = sg \<rparr>"
  let ?st' = "\<lparr> active_trades = (active_trades st)(symbol sg \<mapsto> ?r), calls = snd tp \<rparr>"
  have run: "execute_signal cfg ex sg st = (True, ?st')"
    by (rule execute_signal_success [OF nd enough p1_nz first s_nz pair bal B p1 m a1 c1_def
          lg3 a2 sb tot cost_def avg_def sl_def tp_def])
  have sl_eq: "sl = (create_limit_order (exchange ex)
        (snd sb @ [stop_order_call ex pair tot (stop_loss sg)]) pair Sell tot (stop_loss sg),
      snd sb @ [stop_order_call ex pair tot (stop_loss sg),
                Create_limit_order pair Sell tot (stop_loss sg)])"
    using enabled place_stop_loss_order_rejected [OF rejected] by (simp add: sl_def)
  obtain rest where rest: "snd tp = snd sl @ rest"
    by (cases "enable_take_profit cfg \<and> targets sg \<noteq> []")
       (simp_all add: tp_def place_take_profits_log)
  show ?thesis
    apply (rule exI [of _ ?st'], rule exI [of _ ?r], rule exI [of _ rest])
    apply (simp only: run trade.simps trade_executor.simps simp_thms)
    apply (intro conjI)
    subgoal by (simp add: rest sl_eq)
    subgoal by simp
    subgoal by (simp add: sl_eq)
    done
qed

theorem stop_loss_falls_back_to_limit_sell_witness:
  "symbol example_signal \<notin> dom (active_trades new_executor) \<and> (10::real) \<le> 1000 \<and>
   (0.209::real) \<noteq> 0 \<and>
   create_limit_order (exchange (example_connector 1000 1 is_buy_order))
     (calls new_executor @ [Fetch_balance, Load_markets])
     (text_of ''LSK/USDT'') Buy (60 / 0.209) 0.209 = Some (Order 2) \<and>
   second_buy example_signal \<noteq> 0 \<and> enable_stop_loss default_config \<and>
   stop_order_reply (example_connector 1000 1 is_buy_order) (text_of ''LSK/USDT'')
     (60 / 0.209 + 40 / 0.205) (stop_loss example_signal)
     [Fetch_balance, Load_markets,
      Create_limit_order (text_of ''LSK/USDT'') Buy (60 / 0.209) 0.209,
      Create_limit_order (text_of ''LSK/USDT'') Buy (40 / 0.205) (second_buy example_signal)] = None \<and>
   (\<exists>st' r rest.
      execute_signal default_config (example_connector 1000 1 is_buy_order) example_signal
        new_executor = (True, st') \<and>
      calls st' =
        [Fetch_balance, Load_markets,
         Create_limit_order (text_of ''LSK/USDT'') Buy (60 / 0.209) 0.209,
         Create_limit_order (text_of ''LSK/USDT'') Buy (40 / 0.205) (second_buy example_signal),
         stop_order_call (example_connector 1000 1 is_buy_order) (text_of ''LSK/USDT'')
           (60 / 0.209 + 40 / 0.205) (stop_loss example_signal),
         Create_limit_order (text_of ''LSK/USDT'') Sell (60 / 0.209 + 40 / 0.205)
           (stop_loss example_signal)] @ rest \<and>
      active_trades st' (text_of ''LSK'') = Some r \<and>
      total_amount r = 60 / 0.209 + 40 / 0.205 \<and>
      stop_loss_order r = None)"
proof -
  let ?ex = "example_connector 1000 1 is_buy_order"
  let ?pair = "text_of ''LSK/USDT''"
  let ?c1 = "Create_limit_order ?pair Buy (60 / 0.209) 0.209"
  let ?c2 = "Create_limit_order ?pair Buy (40 / 0.205) (second_buy example_signal)"
  let ?tot = "(60::real) / 0.209 + 40 / 0.205"
  have 1: "(10::real) \<le> 1000" and 2: "(0.209::real) \<noteq> 0" by simp_all
  have first: "create_limit_order (exchange ?ex) (calls new_executor @ [Fetch_balance, Load_markets])
      ?pair Buy (60 / 0.209) 0.209 = Some (Order 2)"
    by (simp add: example_connector_facts example_defs is_buy_order_simps)
  have s_nz: "second_buy example_signal \<noteq> 0" by (simp add: example_defs)
  have enabled: "enable_stop_loss default_config" by (simp add: example_defs)
  have lg3: "[Fetch_balance, Load_markets, ?c1] = calls new_executor @ [Fetch_balance, Load_markets, ?c1]"
    by (simp add: example_defs)
  have sb: "(Some (Order 3), [Fetch_balance, Load_markets, ?c1, ?c2]) =
      (if (1::real) \<le> 40 / 0.205
       then place_limit_order ?ex ?pair Buy (40 / 0.205) (second_buy example_signal)
              [Fetch_balance, Load_markets, ?c1]
       else (None, [Fetch_balance, Load_markets, ?c1]))"
    by (simp add: place_limit_order_def example_connector_facts is_buy_order_simps)
  have tot: "?tot = (case fst (Some (Order 3), [Fetch_balance, Load_markets, ?c1, ?c2]) of
       Some _ \<Rightarrow> 60 / 0.209 + 40 / 0.205 | None \<Rightarrow> 60 / 0.209)"
    by simp
  have rejected: "stop_order_reply ?ex ?pair ?tot (stop_loss example_signal)
      (snd (Some (Order 3), [Fetch_balance, Load_markets, ?c1, ?c2])) = None"
    by (simp add: stop_order_reply_def example_connector_facts is_buy_order_def)
  have rejected': "stop_order_reply ?ex ?pair ?tot (stop_loss example_signal)
      [Fetch_balance, Load_markets, ?c1, ?c2] = None"
    using rejected by simp
  have fallback: "create_limit_order (exchange ?ex) lg ?pair Sell amount price = None"
    for lg amount price
    by (simp add: example_connector_facts is_buy_order_simps)
  note inst = stop_loss_falls_back_to_limit_sell [OF example_not_held(1) example_sizing(1)
      example_sizing(3) example_sizing(5) example_sizing(6) example_sizing(4) example_amounts(1)
      example_amounts(3) lg3 sb tot 1 2 first s_nz enabled rejected]
  have sym: "symbol example_signal = text_of ''LSK''" by (simp add: example_defs)
  from inst have "\<exists>st' r rest.
      execute_signal default_config ?ex example_signal new_executor = (True, st') \<and>
      calls st' =
        [Fetch_balance, Load_markets, ?c1, ?c2,
         stop_order_call ?ex ?pair ?tot (stop_loss example_signal),
         Create_limit_order ?pair Sell ?tot (stop_loss example_signal)] @ rest \<and>
      active_trades st' (text_of ''LSK'') = Some r \<and>
      total_amount r = ?tot \<and>
      stop_loss_order r = None"
    unfolding sym fallback snd_conv by simp
  with example_not_held(1) 1 2 first s_nz enabled rejected' show ?thesis by (intro conjI)
qed

text \<open>
  C9, as the code has it. \<open>get_active_trades\<close> returns a new dictionary with the entries
  of the ledger: assigning or deleting a key through the snapshot is not seen through
  the ledger, nor the other way round. The values are the ledger's own trade
  dictionaries, so the snapshot and the ledger show the same trades.
\<close>

theorem snapshot_copies_the_mapping_only:
  assumes ledger: "lookup h ledger = Some (Dict d)"
  shows "\<exists>snap h'. get_active_trades ledger h = Some (snap, h') \<and> snap \<noteq> ledger \<and>
           lookup h' snap = Some (Dict d) \<and> lookup h' ledger = Some (Dict d) \<and>
           contents h' snap = contents h ledger \<and>
           contents h' ledger = contents h ledger \<and>
           (\<forall>k v. contents (dict_setitem snap k v h') ledger = contents h' ledger) \<and>
           (\<forall>k. contents (dict_delitem snap k h') ledger = contents h' ledger) \<and>
           (\<forall>k v. contents (dict_setitem ledger k v h') snap = contents h' snap) \<and>
           (\<forall>k. contents (dict_delitem ledger k h') snap = contents h' snap)"
proof -
  let ?snap = "length h" and ?h' = "h @ [Dict d]"
  from ledger have lt: "ledger < length h" by (simp add: lookup_def split: if_splits)
  then have ne: "?snap \<noteq> ledger" by simp
  have get: "get_active_trades ledger h = Some (?snap, ?h')"
    by (simp add: get_active_trades_def ledger)
  have l_snap: "lookup ?h' ?snap = Some (Dict d)" by (simp add: lookup_append)
  have l_ledger: "lookup ?h' ledger = Some (Dict d)" using lt ledger by (simp add: lookup_append)
  have c_ledger: "contents ?h' ledger = contents h ledger"
    by (rule contents_cong [where q = ?snap])
       (use lt in \<open>simp_all add: lookup_append lookup_length\<close>)
  have "contents ?h' ?snap = contents ?h' ledger"
    by (simp add: contents_def l_snap l_ledger)
  with c_ledger have c_snap: "contents ?h' ?snap = contents h ledger" by simp
  have set_snap: "contents (dict_setitem ?snap k v ?h') ledger = contents ?h' ledger" for k v
    unfolding dict_setitem_def l_snap
    by (rule contents_cong [where q = ?snap])
       (use lt in \<open>auto simp: lookup_update lookup_append\<close>)
  have del_snap: "contents (dict_delitem ?snap k ?h') ledger = contents ?h' ledger" for k
    unfolding dict_delitem_def l_snap
    by (rule contents_cong [where q = ?snap])
       (use lt in \<open>auto simp: lookup_update lookup_append\<close>)
  have set_ledger: "contents (dict_setitem ledger k v ?h') ?snap = contents ?h' ?snap" for k v
    unfolding dict_setitem_def l_ledger
    by (rule contents_cong [where q = ledger])
       (use lt ledger in \<open>auto simp: lookup_update lookup_append\<close>)
  have del_ledger: "contents (dict_delitem ledger k ?h') ?snap = contents ?h' ?snap" for k
    unfolding dict_delitem_def l_ledger
    by (rule contents_cong [where q = ledger])
       (use lt ledger in \<open>auto simp: lookup_update lookup_append\<close>)
  from get ne l_snap l_ledger c_snap c_ledger set_snap del_snap set_ledger del_ledger
  show ?thesis by blast
qed

theorem snapshot_copies_the_mapping_only_witness:
  "lookup example_heap 0 = Some (Dict [text_of ''LSK'' \<mapsto> 1]) \<and>
   (\<exists>snap h'. get_active_trades 0 example_heap = Some (snap, h') \<and> snap \<noteq> 0 \<and>
      lookup h' snap = Some (Dict [text_of ''LSK'' \<mapsto> 1]) \<and>
      lookup h' 0 = Some (Dict [text_of ''LSK'' \<mapsto> 1]) \<and>
      contents h' snap = contents example_heap 0 \<and>
      contents h' 0 = contents example_heap 0 \<and>
      (\<forall>k v. contents (dict_setitem snap k v h') 0 = contents h' 0) \<and>
      (\<forall>k. contents (dict_delitem snap k h') 0 = contents h' 0) \<and>
      (\<forall>k v. contents (dict_setitem 0 k v h') snap = contents h' snap) \<and>
      (\<forall>k. contents (dict_delitem 0 k h') snap = contents h' snap))"
proof -
  have held: "lookup example_heap 0 = Some (Dict [text_of ''LSK'' \<mapsto> 1])"
    by (simp add: lookup_def example_heap_def)
  from held snapshot_copies_the_mapping_only [OF held] show ?thesis by (rule conjI)
qed

text \<open>
  C9, as the claim states it, fails: an assignment to a field of a trade reached through
  the snapshot is seen through the ledger.
\<close>

theorem snapshot_shares_trades_counterexample:
  "get_active_trades 0 example_heap = Some (2, snapshot_heap) \<and>
   contents snapshot_heap 0 (text_of ''LSK'') = Some example_trade \<and>
   contents (trade_set_total_amount 2 (text_of ''LSK'') 0 snapshot_heap) 0 (text_of ''LSK'') \<noteq>
     Some example_trade"
  by (simp add: get_active_trades_def example_heap_def snapshot_heap_def lookup_def contents_def
      trade_set_total_amount_def example_trade_def nth_append)

text \<open>
  C10. The pre-filter has no false negatives: on every text for which \<open>parse_message\<close>
  returns a signal, \<open>is_signal_message\<close> returns \<open>True\<close>.
\<close>

theorem prefilter_accepts_parsed:
  assumes "parse_message db message_content = Some sg"
  shows "is_signal_message db message_content"
proof -
  from parse_message_Some [OF assms]
  have sy: "search (symbol_re db) message_content \<noteq> None"
    and fb: "search (first_buy_re db) message_content \<noteq> None"
    and sl: "search (sl_re db) message_content \<noteq> None"
    by simp_all
  have "search ([Chr (\<lambda>c. c = 36)] @ [Plus (is_alnum db)]) message_content \<noteq> None"
    using sy unfolding symbol_re_def search_ungroup_last [symmetric] by simp
  then have has_symbol: "search [Chr (\<lambda>c. c = 36), Plus (is_alnum db)] message_content \<noteq> None"
    by simp
  have "search ((lit db ''first'' @ [Plus (whitespace db)]) @ lit db ''buying'' @
          [Plus (is_colon_space db), Group_plus (is_number_char db),
           Plus (is_range_sep db), Group_plus (is_number_char db)]) message_content \<noteq> None"
    using fb unfolding first_buy_re_def by simp
  then have has_buying: "search (lit db ''buying'') message_content \<noteq> None"
    by (rule search_infix)
  have "search ((lit db ''sl'' @ [Plus (is_colon_space db)]) @ [Group_plus (is_number_char db)])
          message_content \<noteq> None"
    using sl unfolding sl_re_def by simp
  then have "search ((lit db ''sl'' @ [Plus (is_colon_space db)]) @ [Plus (is_number_char db)])
          message_content \<noteq> None"
    unfolding search_ungroup_last .
  then have has_sl: "search (lit db ''sl'' @ [Plus (is_colon_space db), Plus (is_number_char db)])
          message_content \<noteq> None"
    by simp
  show ?thesis
    unfolding is_signal_message_def Let_def using has_symbol has_buying has_sl by blast
qed

theorem prefilter_accepts_parsed_witness:
  "parse_message ascii example_message = Some example_signal \<and>
   is_signal_message ascii example_message"
  using parse_example_message prefilter_accepts_parsed [OF parse_example_message]
  by blast

end
